theory Spec2Isabelle
  imports Main
begin

section \<open>Library values used by the handlers\<close>

text \<open>
  The repository is one Go package in two variants: \<^verbatim>\<open>src/main.go\<close>, whose handler
  answers iOS requests with status 500, and \<^verbatim>\<open>src/unnamed/part_000\<close>, which adds
  \<^verbatim>\<open>runIOSTest\<close>. Everything else is the same text in both files.

  Go strings are byte strings: \<^typ>\<open>string\<close>. A Go \<^verbatim>\<open>error\<close> is modelled by what the
  handlers look at: whether \<^verbatim>\<open>os.IsExist\<close> holds of it, and its \<^verbatim>\<open>Error()\<close> text. A nil
  error is \<^term>\<open>None\<close>.
\<close>

datatype go_error = GoError (IsExist: bool) (Error: string)

definition os_IsExist :: "go_error option \<Rightarrow> bool" where
  "os_IsExist err = (case err of None \<Rightarrow> False | Some e \<Rightarrow> IsExist e)"

text \<open>
  \<^verbatim>\<open>url.Values\<close> and \<^verbatim>\<open>http.Header\<close> are \<^verbatim>\<open>map[string][]string\<close>; their \<^verbatim>\<open>Get\<close> returns
  the first value of the key, and the empty string when there is none.
\<close>

type_synonym Values = "string \<rightharpoonup> string list"

definition Values_Get :: "Values \<Rightarrow> string \<Rightarrow> string" where
  "Values_Get v key = (case v key of None \<Rightarrow> [] | Some vs \<Rightarrow> (case vs of [] \<Rightarrow> [] | x # _ \<Rightarrow> x))"

definition Header_Get :: "Values \<Rightarrow> string \<Rightarrow> string" where
  "Header_Get h key = (case h key of None \<Rightarrow> [] | Some vs \<Rightarrow> (case vs of [] \<Rightarrow> [] | x # _ \<Rightarrow> x))"

text \<open>
  \<^verbatim>\<open>strings.Split(s, sep)\<close> for the one-byte separator the source passes: the pieces of
  \<open>s\<close> between the separators, empty pieces included; the empty string gives one empty
  piece. \<^verbatim>\<open>strings.Join\<close> is its inverse and only serves to state that.
\<close>

fun strings_Split :: "string \<Rightarrow> char \<Rightarrow> string list" where
  "strings_Split [] sep = [[]]"
| "strings_Split (c # s) sep =
     (if c = sep then [] # strings_Split s sep
      else (case strings_Split s sep of [] \<Rightarrow> [[c]] | x # xs \<Rightarrow> (c # x) # xs))"

fun strings_Join :: "string list \<Rightarrow> char \<Rightarrow> string" where
  "strings_Join [] sep = []"
| "strings_Join [x] sep = x"
| "strings_Join (x # y # ys) sep = x @ sep # strings_Join (y # ys) sep"

text \<open>
  \<^verbatim>\<open>filepath.Clean\<close> (Unix): the path is cut at its slashes, empty elements and
  \<open>.\<close> are dropped, \<open>..\<close> removes the element before it (at the root it is dropped,
  at the start of a relative path it stays), and the rest is put together again, with a
  leading slash when the path had one; the empty result is \<open>.\<close>. The elements kept so
  far are a stack, last element first.
\<close>

definition path_elements :: "string \<Rightarrow> string list" where
  "path_elements p = filter (\<lambda>c. c \<noteq> [] \<and> c \<noteq> ''.'') (strings_Split p (CHR ''/''))"

definition clean_step :: "bool \<Rightarrow> string list \<Rightarrow> string \<Rightarrow> string list" where
  "clean_step rooted stack c =
     (if c = ''..''
      then (case stack of
              [] \<Rightarrow> if rooted then [] else [''..'']
            | name # rest \<Rightarrow> if name = ''..'' then ''..'' # stack else rest)
      else c # stack)"

definition rendered :: "bool \<Rightarrow> string list \<Rightarrow> string" where
  "rendered rooted stack = (if rooted then ''/'' else []) @ strings_Join (rev stack) (CHR ''/'')"

definition filepath_Clean :: "string \<Rightarrow> string" where
  "filepath_Clean p =
     (if rendered (take 1 p = ''/'') (foldl (clean_step (take 1 p = ''/'')) [] (path_elements p)) = []
      then ''.''
      else rendered (take 1 p = ''/'') (foldl (clean_step (take 1 p = ''/'')) [] (path_elements p)))"

text \<open>
  \<^verbatim>\<open>filepath.Join\<close> of two elements: empty elements are ignored, the others are joined
  with a slash and the result is cleaned; with no element left the result is empty. The
  three-element call of the iOS runner is the join of the join of the first two with the
  third.
\<close>

definition filepath_Join :: "string \<Rightarrow> string \<Rightarrow> string" where
  "filepath_Join a b =
     (if a = [] \<and> b = [] then []
      else if a = [] then filepath_Clean b
      else if b = [] then filepath_Clean a
      else filepath_Clean (a @ ''/'' @ b))"

text \<open>
  A plain name is a path element that stands for itself; \<open>stack_of\<close> is the stack a
  rooted path cleans to.
\<close>

definition plain :: "string \<Rightarrow> bool" where
  "plain c = (c \<noteq> [] \<and> c \<noteq> ''.'' \<and> c \<noteq> ''..'' \<and> CHR ''/'' \<notin> set c)"

definition stack_of :: "string \<Rightarrow> string list" where
  "stack_of p = foldl (clean_step True) [] (path_elements p)"

definition nl :: string where
  "nl = [CHR 0x0A]"

definition quoted :: "string \<Rightarrow> string" where
  "quoted s = CHR 0x27 # s @ [CHR 0x27]"

section \<open>The request, the environment and the state\<close>

text \<open>
  Of a request the handlers read the headers, the raw query and the body. The body is a
  stream: \<open>Body\<close> holds the bytes its reads deliver, \<open>BodyErr\<close> the error other than
  end-of-file that ends it, if any.
\<close>

record Request =
  Header :: Values
  RawQuery :: string
  Body :: string
  BodyErr :: "string option"

text \<open>
  Every effect a handler has on the world outside is recorded, in order.
\<close>

datatype event =
    E_ParseQuery string
  | E_Chdir string
  | E_Mkdir string
  | E_OpenFile string
  | E_ReadAll
  | E_Close
  | E_Log string
  | E_Lock
  | E_Exec "string list"
  | E_Unlock
  | E_Remove string
  | E_RemoveAll string

text \<open>
  The external commands among the events: the argument vectors, in the order run.
\<close>

fun exec_args :: "event list \<Rightarrow> string list list" where
  "exec_args [] = []"
| "exec_args (E_Exec args # es) = args # exec_args es"
| "exec_args (e # es) = exec_args es"

text \<open>
  What the handlers cannot decide is a parameter: the secret flag, \<^verbatim>\<open>os.TempDir()\<close>, the
  result of \<^verbatim>\<open>url.ParseQuery\<close> (\<open>Inl\<close> the error text), the \<^verbatim>\<open>%q\<close> quoting of
  \<^verbatim>\<open>fmt.Sprintf\<close>, the outcome of the i-th \<^verbatim>\<open>rand.Int\<close> call (\<open>Inl\<close> an error), the
  errors the operating system returns for reasons outside the modelled file system
  (permissions, a full disk), and the result of the n-th external command of the request:
  its combined output and its error.
\<close>

record Env =
  secret :: string
  TempDir :: string
  ParseQuery :: "string \<Rightarrow> string + Values"
  Quote :: "string \<Rightarrow> string"
  rand_Int :: "nat \<Rightarrow> string + nat"
  Chdir_fails :: "string \<Rightarrow> string option"
  Mkdir_fails :: "string \<Rightarrow> string option"
  OpenFile_fails :: "string \<Rightarrow> string option"
  Write_fails :: "string \<Rightarrow> string option"
  run :: "nat \<Rightarrow> string list \<Rightarrow> string \<times> string option"

text \<open>
  The state: the working directory of the process, the paths that exist (absolute and cleaned), the
  events so far, the response (\<open>status\<close> is \<^term>\<open>None\<close> until the header is written)
  and whether the handler has panicked.
\<close>

record World =
  cwd :: string
  files :: "string list"
  trace :: "event list"
  status :: "nat option"
  body :: string
  panic :: "string option"

definition commands :: "World \<Rightarrow> string list list" where
  "commands w = exec_args (trace w)"

definition fresh :: "string \<Rightarrow> string list \<Rightarrow> World" where
  "fresh d fs = \<lparr>cwd = d, files = fs, trace = [], status = None, body = [], panic = None\<rparr>"

definition status_code :: "World \<Rightarrow> nat" where
  "status_code w = (case status w of None \<Rightarrow> 200 | Some c \<Rightarrow> c)"

definition emit :: "event \<Rightarrow> World \<Rightarrow> World" where
  "emit e w = w\<lparr>trace := trace w @ [e]\<rparr>"

definition go_panic :: "string \<Rightarrow> World \<Rightarrow> World" where
  "go_panic msg w = w\<lparr>panic := Some msg\<rparr>"

definition nil_dereference :: string where
  "nil_dereference = ''invalid memory address or nil pointer dereference''"

subsection \<open>http.ResponseWriter\<close>

text \<open>
  \<^verbatim>\<open>WriteHeader\<close> sets the status once; \<^verbatim>\<open>Write\<close> sets it to 200 when it is not yet
  set and appends to the body.
\<close>

definition WriteHeader :: "nat \<Rightarrow> World \<Rightarrow> World" where
  "WriteHeader c w = (if status w = None then w\<lparr>status := Some c\<rparr> else w)"

definition Write :: "string \<Rightarrow> World \<Rightarrow> World" where
  "Write b w = (WriteHeader 200 w)\<lparr>body := body (WriteHeader 200 w) @ b\<rparr>"

subsection \<open>The file system\<close>

text \<open>
  The file a path names: a relative path is taken from the working directory, and the
  path is cleaned, so that one file has one name.
\<close>

definition resolve :: "World \<Rightarrow> string \<Rightarrow> string" where
  "resolve w p = filepath_Clean (if take 1 p = ''/'' then p else cwd w @ ''/'' @ p)"

definition beneath :: "string \<Rightarrow> string \<Rightarrow> bool" where
  "beneath a q = (take (Suc (length a)) q = a @ ''/'')"

definition os_Chdir :: "Env \<Rightarrow> string \<Rightarrow> World \<Rightarrow> go_error option \<times> World" where
  "os_Chdir E p w =
     (case Chdir_fails E p of
        Some t \<Rightarrow> (Some (GoError False t), emit (E_Chdir p) w)
      | None \<Rightarrow> (None, (emit (E_Chdir p) w)\<lparr>cwd := resolve w p\<rparr>))"

definition os_Mkdir :: "Env \<Rightarrow> string \<Rightarrow> World \<Rightarrow> go_error option \<times> World" where
  "os_Mkdir E p w =
     (if resolve w p \<in> set (files w)
      then (Some (GoError True (''mkdir '' @ p @ '': file exists'')), emit (E_Mkdir p) w)
      else (case Mkdir_fails E p of
              Some t \<Rightarrow> (Some (GoError False t), emit (E_Mkdir p) w)
            | None \<Rightarrow> (None, (emit (E_Mkdir p) w)\<lparr>files := resolve w p # files w\<rparr>)))"

text \<open>
  \<^verbatim>\<open>os.OpenFile(name, O_RDWR|O_CREATE|O_EXCL, 0600)\<close>: the file handle (\<^term>\<open>None\<close> is
  the nil \<^verbatim>\<open>*os.File\<close>; a handle is the name it was opened with, which is what
  \<^verbatim>\<open>Name()\<close> returns) and the error.
\<close>

definition os_OpenFile :: "Env \<Rightarrow> string \<Rightarrow> World \<Rightarrow> string option \<times> go_error option \<times> World" where
  "os_OpenFile E p w =
     (if resolve w p \<in> set (files w)
      then (None, Some (GoError True (''open '' @ p @ '': file exists'')), emit (E_OpenFile p) w)
      else (case OpenFile_fails E p of
              Some t \<Rightarrow> (None, Some (GoError False t), emit (E_OpenFile p) w)
            | None \<Rightarrow> (Some p, None, (emit (E_OpenFile p) w)\<lparr>files := resolve w p # files w\<rparr>)))"

text \<open>
  \<^verbatim>\<open>os.Remove\<close> and \<^verbatim>\<open>os.RemoveAll\<close>; the handlers drop their errors. A relative
  path is resolved against the working directory at the time of the call.
\<close>

definition os_Remove :: "string \<Rightarrow> World \<Rightarrow> World" where
  "os_Remove p w = (emit (E_Remove p) w)\<lparr>files := removeAll (resolve w p) (files w)\<rparr>"

definition os_RemoveAll :: "string \<Rightarrow> World \<Rightarrow> World" where
  "os_RemoveAll p w =
     (emit (E_RemoveAll p) w)\<lparr>files :=
        filter (\<lambda>q. q \<noteq> resolve w p \<and> \<not> beneath (resolve w p) q) (files w)\<rparr>"

text \<open>
  \<^verbatim>\<open>ioutil.ReadAll(io.TeeReader(r.Body, file))\<close>: each chunk read from the body is
  written to the file before the next is read. \<^verbatim>\<open>(*os.File).Write\<close> on a nil receiver
  returns \<^verbatim>\<open>os.ErrInvalid\<close> (``invalid argument''); with an empty body nothing is
  written.
\<close>

definition ReadAll_TeeReader :: "Env \<Rightarrow> Request \<Rightarrow> string option \<Rightarrow> World \<Rightarrow> string option \<times> World" where
  "ReadAll_TeeReader E r file w =
     (if Body r = [] then (BodyErr r, emit E_ReadAll w)
      else (case file of
              None \<Rightarrow> (Some ''invalid argument'', emit E_ReadAll w)
            | Some name \<Rightarrow>
                (case Write_fails E name of
                   Some t \<Rightarrow> (Some t, emit E_ReadAll w)
                 | None \<Rightarrow> (BodyErr r, emit E_ReadAll w))))"

definition CombinedOutput :: "Env \<Rightarrow> string list \<Rightarrow> World \<Rightarrow> (string \<times> string option) \<times> World" where
  "CombinedOutput E args w =
     (run E (length (commands w)) args, emit (E_Exec args) w)"

definition url_ParseQuery :: "Env \<Rightarrow> string \<Rightarrow> World \<Rightarrow> (string + Values) \<times> World" where
  "url_ParseQuery E raw w = (ParseQuery E raw, emit (E_ParseQuery raw) w)"

section \<open>The random token generator\<close>

definition stringAlpha :: string where
  "stringAlpha = ''abcdefghijklmnopqrstuvwxyz''"

definition stringAlphaUpper :: string where
  "stringAlphaUpper = ''ABCDEFGHIJKLMNOPQRSTUVWXYZ''"

definition stringNumeric :: string where
  "stringNumeric = ''1234567890''"

definition stringAlphaNumeric :: string where
  "stringAlphaNumeric = ([] @ stringAlpha) @ stringAlphaUpper @ stringNumeric"

text \<open>
  The loop of \<^verbatim>\<open>randomStringFromAlphabet\<close>, from index \<open>i\<close> with \<open>n\<close> rounds left.
  \<open>Inl\<close> is a panic: the error of \<^verbatim>\<open>rand.Int\<close>, or an index outside the alphabet.
\<close>

fun randomLoop :: "Env \<Rightarrow> string \<Rightarrow> nat \<Rightarrow> nat \<Rightarrow> string + string" where
  "randomLoop E alpha i 0 = Inr []"
| "randomLoop E alpha i (Suc n) =
     (case rand_Int E i of
        Inl e \<Rightarrow> Inl e
      | Inr v \<Rightarrow>
          if v < length alpha
          then (case randomLoop E alpha (Suc i) n of
                  Inl e \<Rightarrow> Inl e
                | Inr buf \<Rightarrow> Inr (alpha ! v # buf))
          else Inl ''index out of range'')"

definition randomStringFromAlphabet :: "Env \<Rightarrow> string \<Rightarrow> nat \<Rightarrow> string + string" where
  "randomStringFromAlphabet E alpha n = randomLoop E alpha 0 n"

definition RandomAlphaNumericString :: "Env \<Rightarrow> nat \<Rightarrow> string + string" where
  "RandomAlphaNumericString E n = randomStringFromAlphabet E stringAlphaNumeric n"

section \<open>The Android runner\<close>

text \<open>
  \<^verbatim>\<open>runAndroidTest\<close> is the same text in both files. It is split at its two
  \<^verbatim>\<open>defer\<close> statements: a deferred call runs when the function returns, the last
  deferred first, so it is applied to the state the rest of the body ends in.

  \<open>android_locked\<close> is the part that runs with \<^verbatim>\<open>testMu\<close> held: the two \<^verbatim>\<open>adb\<close>
  commands.
\<close>

definition adb_install :: "string \<Rightarrow> string list" where
  "adb_install name = [''adb'', ''install'', ''-r'', name]"

definition adb_instrument :: "string \<Rightarrow> string list" where
  "adb_instrument testPackage =
     [''adb'', ''shell'', ''am'', ''instrument'', ''-w'',
      testPackage @ ''/android.support.test.runner.AndroidJUnitRunner'']"

definition android_locked :: "Env \<Rightarrow> string \<Rightarrow> string \<Rightarrow> World \<Rightarrow> World" where
  "android_locked E testPackage name w =
     (case CombinedOutput E (adb_install name) w of
        ((result, err), w1) \<Rightarrow>
          (case err of
             Some e \<Rightarrow> Write result (Write nl (Write e (WriteHeader 400 w1)))
           | None \<Rightarrow>
               (case CombinedOutput E (adb_instrument testPackage) w1 of
                  ((result, err), w2) \<Rightarrow>
                    (case err of
                       Some e \<Rightarrow> Write result (Write nl (Write e (WriteHeader 400 w2)))
                     | None \<Rightarrow> Write result w2))))"

text \<open>
  \<open>android_staged\<close> is the body after \<^verbatim>\<open>defer os.Remove(apkFile.Name())\<close>: the upload
  is copied to the file, the file is closed, and the commands run between \<^verbatim>\<open>Lock\<close> and
  the deferred \<^verbatim>\<open>Unlock\<close>.
\<close>

definition android_staged :: "Env \<Rightarrow> Request \<Rightarrow> string \<Rightarrow> string \<Rightarrow> World \<Rightarrow> World" where
  "android_staged E r testPackage name w =
     (case ReadAll_TeeReader E r (Some name) w of
        (Some e, w1) \<Rightarrow> Write e (WriteHeader 400 w1)
      | (None, w1) \<Rightarrow>
          emit E_Unlock
            (android_locked E testPackage name
              (emit E_Lock
                (emit (E_Log (''android: Installing and running '' @ testPackage))
                  (emit E_Close w1)))))"

text \<open>
  The \<^verbatim>\<open>defer\<close> statement evaluates \<^verbatim>\<open>apkFile.Name()\<close> at once; \<^verbatim>\<open>Name\<close> reads a
  field of its receiver, so on the nil handle the handler panics there.
\<close>

definition runAndroidTest :: "Env \<Rightarrow> Request \<Rightarrow> Values \<Rightarrow> World \<Rightarrow> World" where
  "runAndroidTest E r query w =
     (if Values_Get query ''test_package'' = []
      then Write (''must specify '' @ quoted ''test_package'') (WriteHeader 400 w)
      else
        (case RandomAlphaNumericString E 5 of
           Inl p \<Rightarrow> go_panic p w
         | Inr suffix \<Rightarrow>
             (case os_OpenFile E (filepath_Join (TempDir E) (''test_'' @ suffix @ ''.apk'')) w of
                (apkFile, err, w1) \<Rightarrow>
                  if os_IsExist err
                  then (case err of
                          Some e \<Rightarrow> Write (Error e) (WriteHeader 400 w1)
                        | None \<Rightarrow> go_panic nil_dereference w1)
                  else
                    (case apkFile of
                       None \<Rightarrow> go_panic nil_dereference w1
                     | Some name \<Rightarrow>
                         os_Remove name
                           (android_staged E r (Values_Get query ''test_package'') name w1)))))"

section \<open>The iOS runner\<close>

text \<open>
  The loop over the schemes, with the flag \<^verbatim>\<open>testFailed\<close>.
\<close>

definition testStartMsg :: "Env \<Rightarrow> string \<Rightarrow> string \<Rightarrow> string" where
  "testStartMsg E scheme testDestination =
     ''ios: Testing scheme '' @ Quote E scheme @ '' on destination '' @ Quote E testDestination"

definition xcodebuild :: "string \<Rightarrow> string \<Rightarrow> string list" where
  "xcodebuild testDestination scheme =
     [''xcodebuild'', ''test'', ''-destination'', testDestination, ''-scheme'', scheme]"

fun ios_schemes :: "Env \<Rightarrow> string \<Rightarrow> string list \<Rightarrow> bool \<Rightarrow> World \<Rightarrow> bool \<times> World" where
  "ios_schemes E testDestination [] testFailed w = (testFailed, w)"
| "ios_schemes E testDestination (scheme # schemes) testFailed w =
     (case CombinedOutput E (xcodebuild testDestination scheme)
             (Write nl (Write (testStartMsg E scheme testDestination)
               (emit (E_Log (testStartMsg E scheme testDestination)) w))) of
        ((result, err), w1) \<Rightarrow>
          (case err of
             Some e \<Rightarrow>
               ios_schemes E testDestination schemes True
                 (Write result (Write nl (Write e (Write (''!!TEST FAILED!!'' @ nl) w1))))
           | None \<Rightarrow>
               ios_schemes E testDestination schemes testFailed
                 (Write result (Write (''!!TEST PASSED!!'' @ nl) w1))))"

definition ios_locked :: "Env \<Rightarrow> string \<Rightarrow> string list \<Rightarrow> World \<Rightarrow> World" where
  "ios_locked E testDestination testSchemes w =
     (case ios_schemes E testDestination testSchemes False w of
        (testFailed, w1) \<Rightarrow>
          if \<not> testFailed then Write (''!!ALL TESTS PASSED!!'' @ nl) w1 else w1)"

text \<open>
  \<open>ios_staged\<close> is the body after \<^verbatim>\<open>defer os.RemoveAll(sourceDir)\<close>. On a nil
  \<^verbatim>\<open>sourceFile\<close>, \<^verbatim>\<open>Close\<close> returns an error that is dropped, and \<^verbatim>\<open>Name()\<close>, called
  for the argument of \<^verbatim>\<open>tar\<close>, panics.
\<close>

definition tar_xf :: "string \<Rightarrow> string list" where
  "tar_xf name = [''tar'', ''xf'', name]"

definition ios_staged :: "Env \<Rightarrow> Request \<Rightarrow> string \<Rightarrow> string list \<Rightarrow> string \<Rightarrow> World \<Rightarrow> World" where
  "ios_staged E r testDestination testSchemes sourceDir w =
     (case os_Chdir E (filepath_Join (TempDir E) sourceDir) w of
        (Some e, w1) \<Rightarrow> Write (Error e) (WriteHeader 500 w1)
      | (None, w1) \<Rightarrow>
          (case os_OpenFile E (filepath_Join (filepath_Join (TempDir E) sourceDir) ''source.tgz'') w1 of
             (sourceFile, err, w2) \<Rightarrow>
               if os_IsExist err
               then (case err of
                       Some e \<Rightarrow> Write (Error e) (WriteHeader 400 w2)
                     | None \<Rightarrow> go_panic nil_dereference w2)
               else
                 (case ReadAll_TeeReader E r sourceFile w2 of
                    (Some e, w3) \<Rightarrow> Write e (WriteHeader 400 w3)
                  | (None, w3) \<Rightarrow>
                      (case sourceFile of
                         None \<Rightarrow>
                           go_panic nil_dereference
                             (emit (E_Log ''ios: Unpacking source'') (emit E_Close w3))
                       | Some name \<Rightarrow>
                           (case CombinedOutput E (tar_xf name)
                                   (emit (E_Log ''ios: Unpacking source'') (emit E_Close w3)) of
                              ((result, err), w4) \<Rightarrow>
                                (case err of
                                   Some e \<Rightarrow>
                                     Write result (Write nl (Write e (WriteHeader 400 w4)))
                                 | None \<Rightarrow>
                                     emit E_Unlock
                                       (ios_locked E testDestination testSchemes
                                         (emit E_Lock w4))))))))"

definition runIOSTest :: "Env \<Rightarrow> Request \<Rightarrow> Values \<Rightarrow> World \<Rightarrow> World" where
  "runIOSTest E r query w =
     (if Values_Get query ''test_destination'' = []
      then Write (''must specify '' @ quoted ''test_destination'') (WriteHeader 400 w)
      else if Values_Get query ''test_schemes'' = []
      then Write (''must specify '' @ quoted ''test_schemes'') (WriteHeader 400 w)
      else
        (case os_Chdir E (TempDir E) w of
           (Some e, w1) \<Rightarrow> Write (Error e) (WriteHeader 500 w1)
         | (None, w1) \<Rightarrow>
             (case RandomAlphaNumericString E 5 of
                Inl p \<Rightarrow> go_panic p w1
              | Inr sourceDir \<Rightarrow>
                  (case os_Mkdir E sourceDir w1 of
                     (Some e, w2) \<Rightarrow> Write (Error e) (WriteHeader 500 w2)
                   | (None, w2) \<Rightarrow>
                       os_RemoveAll sourceDir
                         (ios_staged E r (Values_Get query ''test_destination'')
                            (strings_Split (Values_Get query ''test_schemes'') (CHR '',''))
                            sourceDir w2)))))"

section \<open>The dispatcher\<close>

text \<open>
  \<open>handler_part_000\<close> is \<^verbatim>\<open>handler\<close> of \<^verbatim>\<open>src/unnamed/part_000\<close>, \<open>handler_main_go\<close>
  that of \<^verbatim>\<open>src/main.go\<close>. \<^verbatim>\<open>main\<close> refuses to serve with an empty secret.
\<close>

definition testTypeAndroid :: string where
  "testTypeAndroid = ''android''"

definition testTypeIOS :: string where
  "testTypeIOS = ''ios''"

definition handler_part_000 :: "Env \<Rightarrow> Request \<Rightarrow> World \<Rightarrow> World" where
  "handler_part_000 E r w =
     (if Header_Get (Header r) ''Authorization'' \<noteq> secret E then WriteHeader 401 w
      else
        (case url_ParseQuery E (RawQuery r) w of
           (Inl e, w1) \<Rightarrow> Write e (WriteHeader 400 w1)
         | (Inr query, w1) \<Rightarrow>
             if Values_Get query ''test_type'' = testTypeAndroid then runAndroidTest E r query w1
             else if Values_Get query ''test_type'' = testTypeIOS then runIOSTest E r query w1
             else Write (''must specify '' @ quoted ''test_type'') (WriteHeader 400 w1)))"

definition handler_main_go :: "Env \<Rightarrow> Request \<Rightarrow> World \<Rightarrow> World" where
  "handler_main_go E r w =
     (if Header_Get (Header r) ''Authorization'' \<noteq> secret E then WriteHeader 401 w
      else
        (case url_ParseQuery E (RawQuery r) w of
           (Inl e, w1) \<Rightarrow> Write e (WriteHeader 400 w1)
         | (Inr query, w1) \<Rightarrow>
             if Values_Get query ''test_type'' = testTypeAndroid then runAndroidTest E r query w1
             else if Values_Get query ''test_type'' = testTypeIOS then WriteHeader 500 w1
             else Write (''must specify '' @ quoted ''test_type'') (WriteHeader 400 w1)))"

datatype startup = Exit nat | ListenAndServe

definition main :: "string \<Rightarrow> startup" where
  "main flag_secret = (if flag_secret = [] then Exit 1 else ListenAndServe)"

section \<open>What the response of the scheme loop is made of\<close>

text \<open>
  The lines the runner's contract promises for one scheme, run as the \<open>k\<close>-th command
  of the request: the start line, then the failure marker with the error text and the
  output, or the success marker with the output. The command is written out: the build
  tool's test action with the destination and the scheme.
\<close>

definition scheme_report :: "Env \<Rightarrow> string \<Rightarrow> nat \<Rightarrow> string \<Rightarrow> string" where
  "scheme_report E testDestination k scheme =
     ''ios: Testing scheme '' @ Quote E scheme @ '' on destination '' @ Quote E testDestination @
     nl @
     (case run E k [''xcodebuild'', ''test'', ''-destination'', testDestination, ''-scheme'', scheme] of
        (result, Some e) \<Rightarrow> ''!!TEST FAILED!!'' @ nl @ e @ nl @ result
      | (result, None) \<Rightarrow> ''!!TEST PASSED!!'' @ nl @ result)"

definition scheme_failed :: "Env \<Rightarrow> string \<Rightarrow> nat \<Rightarrow> string \<Rightarrow> bool" where
  "scheme_failed E testDestination k scheme =
     (snd (run E k [''xcodebuild'', ''test'', ''-destination'', testDestination, ''-scheme'', scheme])
        \<noteq> None)"

section \<open>The lock within one request\<close>

text \<open>
  \<^verbatim>\<open>testMu\<close> as one request sees it: \<open>held_after held es\<close> runs the events \<open>es\<close> from
  a state in which the request holds the lock or not, and is \<^term>\<open>None\<close> when the request
  locks what it already holds, unlocks what it does not hold, or runs \<^verbatim>\<open>adb\<close> or
  \<^verbatim>\<open>xcodebuild\<close> without holding the lock.
\<close>

definition device_command :: "string list \<Rightarrow> bool" where
  "device_command args = (take 1 args = [''adb''] \<or> take 1 args = [''xcodebuild''])"

fun held_after :: "bool \<Rightarrow> event list \<Rightarrow> bool option" where
  "held_after held [] = Some held"
| "held_after held (E_Lock # es) = (if held then None else held_after True es)"
| "held_after held (E_Unlock # es) = (if held then held_after False es else None)"
| "held_after held (E_Exec args # es) =
     (if device_command args \<and> \<not> held then None else held_after held es)"
| "held_after held (e # es) = held_after held es"

text \<open>
  Requests handled at the same time: a schedule is the list of their events in the order
  they happen, each with the request it belongs to; \<open>project i s\<close> is what request \<open>i\<close>
  does. \<open>mutex_respected\<close> says that the schedule is one \<^verbatim>\<open>sync.Mutex\<close> allows:
  \<^verbatim>\<open>Lock\<close> succeeds only on a free mutex (a request that finds it taken waits, so its
  \<^verbatim>\<open>Lock\<close> event comes later) and \<^verbatim>\<open>Unlock\<close> frees a taken one. \<open>serialized guarded\<close>
  says that every command that \<open>guarded\<close> selects runs while its own request owns the
  mutex.
\<close>

definition project :: "'i \<Rightarrow> ('i \<times> event) list \<Rightarrow> event list" where
  "project i s = map snd (filter (\<lambda>x. fst x = i) s)"



section \<open>A concrete server\<close>

text \<open>
  An environment and requests to run the handlers on: the secret is \<open>s3cret\<close>, the
  temporary directory \<open>/tmp\<close>, the random draws are 0, 1, 2, ... (the token
  \<open>abcde\<close>), no system call fails and every command succeeds with output \<open>ok\<close>.
  The variants below change one of these.
\<close>

definition dq :: "string \<Rightarrow> string" where
  "dq s = CHR 0x22 # s @ [CHR 0x22]"

definition demo_ParseQuery :: "string \<Rightarrow> string + Values" where
  "demo_ParseQuery raw =
     (if raw = ''%'' then Inl (''invalid URL escape '' @ dq ''%'')
      else if raw = ''test_type=android''
        then Inr [''test_type'' \<mapsto> [''android'']]
      else if raw = ''test_type=android&test_package=com.example.test''
        then Inr [''test_type'' \<mapsto> [''android''], ''test_package'' \<mapsto> [''com.example.test'']]
      else if raw = ''test_type=ios''
        then Inr [''test_type'' \<mapsto> [''ios'']]
      else if raw = ''test_type=ios&test_destination=sim''
        then Inr [''test_type'' \<mapsto> [''ios''], ''test_destination'' \<mapsto> [''sim'']]
      else if raw = ''test_type=ios&test_destination=sim&test_schemes=A,B''
        then Inr [''test_type'' \<mapsto> [''ios''], ''test_destination'' \<mapsto> [''sim''],
                  ''test_schemes'' \<mapsto> [''A,B'']]
      else Inr Map.empty)"

definition demo_server ::
    "(string \<Rightarrow> string option) \<Rightarrow> (nat \<Rightarrow> string list \<Rightarrow> string \<times> string option) \<Rightarrow> Env" where
  "demo_server open_outcome commands_outcome =
     \<lparr>secret = ''s3cret'', TempDir = ''/tmp'', ParseQuery = demo_ParseQuery,
      Quote = dq, rand_Int = (\<lambda>i. Inr i),
      Chdir_fails = (\<lambda>p. None), Mkdir_fails = (\<lambda>p. None), OpenFile_fails = open_outcome,
      Write_fails = (\<lambda>p. None), run = commands_outcome\<rparr>"

definition demo_env :: Env where
  "demo_env = demo_server (\<lambda>p. None) (\<lambda>n args. (''ok'', None))"

definition demo_request :: "string \<Rightarrow> Request" where
  "demo_request raw =
     \<lparr>Header = [''Authorization'' \<mapsto> [''s3cret'']], RawQuery = raw, Body = ''PK'', BodyErr = None\<rparr>"

definition anonymous_request :: Request where
  "anonymous_request = \<lparr>Header = Map.empty, RawQuery = ''test_type=android'', Body = ''PK'', BodyErr = None\<rparr>"

definition install_fails_env :: Env where
  "install_fails_env =
     demo_server (\<lambda>p. None) (\<lambda>n args. if n = 0 then (''Failure [INSTALL_FAILED]'', Some ''exit status 1'')
                            else (''ok'', None))"

definition instrument_fails_env :: Env where
  "instrument_fails_env =
     demo_server (\<lambda>p. None) (\<lambda>n args. if n = 1 then (''FAILURES!!!'', Some ''exit status 1'')
                            else (''Success'', None))"

definition android_query :: Values where
  "android_query = [''test_type'' \<mapsto> [''android''], ''test_package'' \<mapsto> [''com.example.test'']]"

definition scheme_A_fails_env :: Env where
  "scheme_A_fails_env =
     demo_server (\<lambda>p. None)
       (\<lambda>n args. if n = 1 then (''** TEST FAILED **'', Some ''exit status 65'') else (''ok'', None))"

definition ios_query :: Values where
  "ios_query = [''test_type'' \<mapsto> [''ios''], ''test_destination'' \<mapsto> [''sim''],
                ''test_schemes'' \<mapsto> [''A,B'']]"

definition in_tmp :: World where
  "in_tmp = \<lparr>cwd = ''/tmp'', files = [], trace = [E_Chdir ''/tmp''], status = None, body = [],
              panic = None\<rparr>"

definition dir_made :: World where
  "dir_made = \<lparr>cwd = ''/tmp'', files = [''/tmp/abcde''], trace = [E_Chdir ''/tmp'', E_Mkdir ''abcde''],
                status = None, body = [], panic = None\<rparr>"

definition in_dir :: World where
  "in_dir = \<lparr>cwd = ''/tmp/abcde'', files = [''/tmp/abcde''],
              trace = [E_Chdir ''/tmp'', E_Mkdir ''abcde'', E_Chdir ''/tmp/abcde''],
              status = None, body = [], panic = None\<rparr>"

definition tgz_created :: World where
  "tgz_created = \<lparr>cwd = ''/tmp/abcde'', files = [''/tmp/abcde/source.tgz'', ''/tmp/abcde''],
              trace = [E_Chdir ''/tmp'', E_Mkdir ''abcde'', E_Chdir ''/tmp/abcde'',
                       E_OpenFile ''/tmp/abcde/source.tgz''],
              status = None, body = [], panic = None\<rparr>"

definition ios_query_gap :: Values where
  "ios_query_gap = [''test_type'' \<mapsto> [''ios''], ''test_destination'' \<mapsto> [''sim''],
                    ''test_schemes'' \<mapsto> [''A,,B'']]"

definition open_denied_env :: Env where
  "open_denied_env =
     demo_server (\<lambda>p. Some (''open '' @ p @ '': permission denied'')) (\<lambda>n args. (''ok'', None))"

definition empty_request :: Request where
  "empty_request = \<lparr>Header = [''Authorization'' \<mapsto> [''s3cret'']], RawQuery = [], Body = [], BodyErr = None\<rparr>"




section \<open>The effect of the primitive operations on each component of the state\<close>

lemma emit_simps [simp]:
  "trace (emit e w) = trace w @ [e]" "cwd (emit e w) = cwd w" "files (emit e w) = files w"
  "status (emit e w) = status w" "body (emit e w) = body w" "panic (emit e w) = panic w"
  by (simp_all add: emit_def)

lemma WriteHeader_simps [simp]:
  "trace (WriteHeader c w) = trace w" "cwd (WriteHeader c w) = cwd w"
  "files (WriteHeader c w) = files w" "body (WriteHeader c w) = body w"
  "panic (WriteHeader c w) = panic w"
  "status (WriteHeader c w) = (if status w = None then Some c else status w)"
  by (simp_all add: WriteHeader_def)

lemma Write_simps [simp]:
  "trace (Write b w) = trace w" "cwd (Write b w) = cwd w"
  "files (Write b w) = files w" "body (Write b w) = body w @ b"
  "panic (Write b w) = panic w"
  "status (Write b w) = (if status w = None then Some 200 else status w)"
  by (simp_all add: Write_def)

lemma go_panic_simps [simp]:
  "trace (go_panic m w) = trace w" "cwd (go_panic m w) = cwd w"
  "files (go_panic m w) = files w" "body (go_panic m w) = body w"
  "panic (go_panic m w) = Some m" "status (go_panic m w) = status w"
  by (simp_all add: go_panic_def)

lemma exec_args_append [simp]: "exec_args (xs @ ys) = exec_args xs @ exec_args ys"
  by (induction xs rule: exec_args.induct) simp_all

lemma commands_simps [simp]:
  "commands (emit (E_Exec a) w) = commands w @ [a]"
  "commands (emit (E_Log m) w) = commands w"
  "commands (emit E_Lock w) = commands w"
  "commands (emit E_Unlock w) = commands w"
  "commands (emit E_Close w) = commands w"
  "commands (emit E_ReadAll w) = commands w"
  "commands (emit (E_OpenFile p) w) = commands w"
  "commands (emit (E_Chdir p) w) = commands w"
  "commands (emit (E_Mkdir p) w) = commands w"
  "commands (emit (E_Remove p) w) = commands w"
  "commands (emit (E_RemoveAll p) w) = commands w"
  "commands (Write b w) = commands w"
  "commands (WriteHeader c w) = commands w"
  "commands (go_panic m w) = commands w"
  "commands (w\<lparr>files := fs\<rparr>) = commands w"
  "commands (w\<lparr>cwd := d\<rparr>) = commands w"
  by (simp_all add: commands_def)

lemma status_code_simps [simp]:
  "status_code (emit e w) = status_code w"
  "status_code (Write b w) = status_code w"
  "status_code (w\<lparr>files := fs\<rparr>) = status_code w"
  "status w = None \<Longrightarrow> status_code (WriteHeader c w) = c"
  "status w = None \<Longrightarrow> status_code w = 200"
  by (simp_all add: status_code_def)

lemma CombinedOutput_eq:
  "CombinedOutput E args w = (run E (length (commands w)) args, emit (E_Exec args) w)"
  by (simp add: CombinedOutput_def)

lemmas path_defs =
  filepath_Join_def filepath_Clean_def path_elements_def clean_step_def rendered_def resolve_def

section \<open>What the dispatcher answers\<close>

text \<open>
  C3. A request whose \<open>Authorization\<close> header differs from the secret is answered with
  status 401 and nothing else happens: the final state is the initial one with the status
  set, so the body is empty, no event (query parsing, file operation, command) is recorded
  and the file system is untouched. This holds in both variants and whatever the rest of
  the request is. A request without the header is such a request, since the server only
  runs with a non-empty secret.
\<close>

theorem C3_unauthorized:
  "(Header_Get (Header r) ''Authorization'' \<noteq> secret E \<longrightarrow>
      handler_part_000 E r (fresh d fs) = (fresh d fs)\<lparr>status := Some 401\<rparr> \<and>
      handler_main_go E r (fresh d fs) = (fresh d fs)\<lparr>status := Some 401\<rparr>) \<and>
   (Header r ''Authorization'' = None \<and> main (secret E) = ListenAndServe \<longrightarrow>
      handler_part_000 E r (fresh d fs) = (fresh d fs)\<lparr>status := Some 401\<rparr> \<and>
      handler_main_go E r (fresh d fs) = (fresh d fs)\<lparr>status := Some 401\<rparr>)"
  by (auto simp: handler_part_000_def handler_main_go_def WriteHeader_def fresh_def
      Header_Get_def main_def split: if_splits)

theorem C3_unauthorized_witness:
  "Header_Get (Header anonymous_request) ''Authorization'' \<noteq> secret demo_env \<and>
   Header anonymous_request ''Authorization'' = None \<and>
   main (secret demo_env) = ListenAndServe \<and>
   handler_part_000 demo_env anonymous_request (fresh ''/'' []) = (fresh ''/'' [])\<lparr>status := Some 401\<rparr> \<and>
   handler_main_go demo_env anonymous_request (fresh ''/'' []) = (fresh ''/'' [])\<lparr>status := Some 401\<rparr>"
  using C3_unauthorized [where r = anonymous_request and E = demo_env and d = "''/''" and fs = "[]"]
  by (simp add: anonymous_request_def demo_env_def demo_server_def Header_Get_def main_def)

text \<open>
  C7. For an authorized request whose query parses, a \<open>test_type\<close> that is neither
  \<open>android\<close> nor \<open>ios\<close> (absent included: then it reads as the empty string) gives
  status 400 with the body \<open>must specify 'test_type'\<close>; when the query does not parse,
  status 400 with the parse error as body. Both variants agree, and only the parsing is
  recorded.
\<close>

theorem C7_test_type:
  assumes "Header_Get (Header r) ''Authorization'' = secret E"
  shows "(ParseQuery E (RawQuery r) = Inr query \<and>
          Values_Get query ''test_type'' \<noteq> ''android'' \<and>
          Values_Get query ''test_type'' \<noteq> ''ios'' \<longrightarrow>
            handler_part_000 E r (fresh d fs) =
              (fresh d fs)\<lparr>trace := [E_ParseQuery (RawQuery r)], status := Some 400,
                 body := ''must specify '' @ quoted ''test_type''\<rparr> \<and>
            handler_main_go E r (fresh d fs) = handler_part_000 E r (fresh d fs)) \<and>
         (ParseQuery E (RawQuery r) = Inl e \<longrightarrow>
            handler_part_000 E r (fresh d fs) =
              (fresh d fs)\<lparr>trace := [E_ParseQuery (RawQuery r)], status := Some 400, body := e\<rparr> \<and>
            handler_main_go E r (fresh d fs) = handler_part_000 E r (fresh d fs))"
  using assms
  by (simp add: handler_part_000_def handler_main_go_def WriteHeader_def Write_def fresh_def
      url_ParseQuery_def emit_def testTypeAndroid_def testTypeIOS_def)

theorem C7_test_type_witness:
  "Header_Get (Header (demo_request ''x=1'')) ''Authorization'' = secret demo_env \<and>
   ParseQuery demo_env ''x=1'' = Inr Map.empty \<and>
   Values_Get Map.empty ''test_type'' = [] \<and>
   handler_part_000 demo_env (demo_request ''x=1'') (fresh ''/'' []) =
     (fresh ''/'' [])\<lparr>trace := [E_ParseQuery ''x=1''], status := Some 400,
        body := ''must specify '' @ quoted ''test_type''\<rparr> \<and>
   ParseQuery demo_env ''%'' = Inl (''invalid URL escape '' @ dq ''%'') \<and>
   handler_part_000 demo_env (demo_request ''%'') (fresh ''/'' []) =
     (fresh ''/'' [])\<lparr>trace := [E_ParseQuery ''%''], status := Some 400,
        body := ''invalid URL escape '' @ dq ''%''\<rparr> \<and>
   handler_main_go demo_env (demo_request ''x=1'') (fresh ''/'' []) =
     handler_part_000 demo_env (demo_request ''x=1'') (fresh ''/'' []) \<and>
   handler_main_go demo_env (demo_request ''%'') (fresh ''/'' []) =
     handler_part_000 demo_env (demo_request ''%'') (fresh ''/'' [])"
  using C7_test_type [where r = "demo_request ''x=1''" and E = demo_env and query = Map.empty
      and d = "''/''" and fs = "[]"]
    C7_test_type [where r = "demo_request ''%''" and E = demo_env
      and e = "''invalid URL escape '' @ dq ''%''"
      and d = "''/''" and fs = "[]"]
  by (simp add: demo_request_def demo_env_def demo_server_def demo_ParseQuery_def Header_Get_def
      Values_Get_def)

text \<open>
  C6. For an authorized request whose query parses, a required parameter that is absent or
  empty ends the request before anything else happens: with \<open>test_type=android\<close> and
  no \<open>test_package\<close> the response is 400 with \<open>must specify 'test_package'\<close> (in both
  variants); with \<open>test_type=ios\<close> and no \<open>test_destination\<close> it is 400 with
  \<open>must specify 'test_destination'\<close>, whether \<open>test_schemes\<close> is given or not; with
  a destination and no \<open>test_schemes\<close> it is 400 with \<open>must specify 'test_schemes'\<close>. In each case the final state is the initial
  one but for the response and the record of the query parsing: no directory change, no
  file, no command. The destination is checked first, so it is the one reported when both
  iOS parameters are missing. The iOS runner is that of \<^verbatim>\<open>src/unnamed/part_000\<close>;
  what \<^verbatim>\<open>src/main.go\<close> answers to an iOS request is the subject of C8.
\<close>

theorem C6_missing_parameter:
  assumes "Header_Get (Header r) ''Authorization'' = secret E"
    and "ParseQuery E (RawQuery r) = Inr query"
  shows "(Values_Get query ''test_type'' = ''android'' \<and> Values_Get query ''test_package'' = [] \<longrightarrow>
            handler_part_000 E r (fresh d fs) =
              (fresh d fs)\<lparr>trace := [E_ParseQuery (RawQuery r)], status := Some 400,
                 body := ''must specify '' @ quoted ''test_package''\<rparr> \<and>
            handler_main_go E r (fresh d fs) = handler_part_000 E r (fresh d fs)) \<and>
         (Values_Get query ''test_type'' = ''ios'' \<and> Values_Get query ''test_destination'' = [] \<longrightarrow>
            handler_part_000 E r (fresh d fs) =
              (fresh d fs)\<lparr>trace := [E_ParseQuery (RawQuery r)], status := Some 400,
                 body := ''must specify '' @ quoted ''test_destination''\<rparr>) \<and>
         (Values_Get query ''test_type'' = ''ios'' \<and> Values_Get query ''test_destination'' \<noteq> [] \<and>
          Values_Get query ''test_schemes'' = [] \<longrightarrow>
            handler_part_000 E r (fresh d fs) =
              (fresh d fs)\<lparr>trace := [E_ParseQuery (RawQuery r)], status := Some 400,
                 body := ''must specify '' @ quoted ''test_schemes''\<rparr>)"
  using assms
  by (simp add: handler_part_000_def handler_main_go_def WriteHeader_def Write_def fresh_def
      url_ParseQuery_def emit_def testTypeAndroid_def testTypeIOS_def runAndroidTest_def
      runIOSTest_def)

theorem C6_missing_parameter_witness:
  "Header_Get (Header (demo_request ''test_type=android'')) ''Authorization'' = secret demo_env \<and>
   ParseQuery demo_env ''test_type=android'' = Inr [''test_type'' \<mapsto> [''android'']] \<and>
   Values_Get [''test_type'' \<mapsto> [''android'']] ''test_package'' = [] \<and>
   handler_part_000 demo_env (demo_request ''test_type=android'') (fresh ''/'' []) =
     (fresh ''/'' [])\<lparr>trace := [E_ParseQuery ''test_type=android''], status := Some 400,
        body := ''must specify '' @ quoted ''test_package''\<rparr> \<and>
   handler_main_go demo_env (demo_request ''test_type=android'') (fresh ''/'' []) =
     handler_part_000 demo_env (demo_request ''test_type=android'') (fresh ''/'' []) \<and>
   ParseQuery demo_env ''test_type=ios'' = Inr [''test_type'' \<mapsto> [''ios'']] \<and>
   Values_Get [''test_type'' \<mapsto> [''ios'']] ''test_destination'' = [] \<and>
   handler_part_000 demo_env (demo_request ''test_type=ios'') (fresh ''/'' []) =
     (fresh ''/'' [])\<lparr>trace := [E_ParseQuery ''test_type=ios''], status := Some 400,
        body := ''must specify '' @ quoted ''test_destination''\<rparr> \<and>
   ParseQuery demo_env ''test_type=ios&test_destination=sim'' =
     Inr [''test_type'' \<mapsto> [''ios''], ''test_destination'' \<mapsto> [''sim'']] \<and>
   Values_Get [''test_type'' \<mapsto> [''ios''], ''test_destination'' \<mapsto> [''sim'']] ''test_schemes'' = [] \<and>
   handler_part_000 demo_env (demo_request ''test_type=ios&test_destination=sim'') (fresh ''/'' []) =
     (fresh ''/'' [])\<lparr>trace := [E_ParseQuery ''test_type=ios&test_destination=sim''],
        status := Some 400, body := ''must specify '' @ quoted ''test_schemes''\<rparr>"
  using
    C6_missing_parameter [where r = "demo_request ''test_type=android''" and E = demo_env
      and query = "[''test_type'' \<mapsto> [''android'']]" and d = "''/''" and fs = "[]"]
    C6_missing_parameter [where r = "demo_request ''test_type=ios''" and E = demo_env
      and query = "[''test_type'' \<mapsto> [''ios'']]" and d = "''/''" and fs = "[]"]
    C6_missing_parameter [where r = "demo_request ''test_type=ios&test_destination=sim''"
      and E = demo_env
      and query = "[''test_type'' \<mapsto> [''ios''], ''test_destination'' \<mapsto> [''sim'']]"
      and d = "''/''" and fs = "[]"]
  by (simp add: demo_request_def demo_env_def demo_server_def demo_ParseQuery_def Header_Get_def
      Values_Get_def)

text \<open>
  The claim as first stated gives the \<open>test_schemes\<close> message to every iOS request
  without \<open>test_schemes\<close>. An authorized request with \<open>test_type=ios\<close> and neither
  parameter has no \<open>test_schemes\<close>, and its body is the \<open>test_destination\<close> message.
\<close>

theorem C6_both_missing_counterexample:
  "Header_Get (Header (demo_request ''test_type=ios'')) ''Authorization'' = secret demo_env \<and>
   ParseQuery demo_env (RawQuery (demo_request ''test_type=ios'')) = Inr [''test_type'' \<mapsto> [''ios'']] \<and>
   Values_Get [''test_type'' \<mapsto> [''ios'']] ''test_type'' = ''ios'' \<and>
   Values_Get [''test_type'' \<mapsto> [''ios'']] ''test_schemes'' = [] \<and>
   status (handler_part_000 demo_env (demo_request ''test_type=ios'') (fresh ''/'' [])) = Some 400 \<and>
   body (handler_part_000 demo_env (demo_request ''test_type=ios'') (fresh ''/'' [])) =
     ''must specify '' @ quoted ''test_destination'' \<and>
   body (handler_part_000 demo_env (demo_request ''test_type=ios'') (fresh ''/'' [])) \<noteq>
     ''must specify '' @ quoted ''test_schemes''"
  by (simp add: handler_part_000_def url_ParseQuery_def runIOSTest_def testTypeAndroid_def
      testTypeIOS_def fresh_def demo_request_def demo_env_def demo_server_def demo_ParseQuery_def
      Header_Get_def Values_Get_def quoted_def)

text \<open>
  C8. The two variants give the same final state (response, events, file system) on every
  request that is not an authorized request with \<open>test_type=ios\<close>: on a wrong or missing
  secret, on a query that does not parse, on an unknown \<open>test_type\<close> and on every
  Android request. On an authorized \<open>ios\<close> request, \<^verbatim>\<open>src/main.go\<close> answers 500 with an
  empty body and does nothing else, while \<^verbatim>\<open>src/unnamed/part_000\<close> runs \<open>runIOSTest\<close>.
\<close>

theorem C8_variants:
  "(\<not> (Header_Get (Header r) ''Authorization'' = secret E \<and>
        (\<exists>query. ParseQuery E (RawQuery r) = Inr query \<and> Values_Get query ''test_type'' = ''ios'')) \<longrightarrow>
      handler_main_go E r w = handler_part_000 E r w) \<and>
   (Header_Get (Header r) ''Authorization'' = secret E \<and>
    ParseQuery E (RawQuery r) = Inr query \<and> Values_Get query ''test_type'' = ''ios'' \<longrightarrow>
      handler_main_go E r (fresh d fs) =
        (fresh d fs)\<lparr>trace := [E_ParseQuery (RawQuery r)], status := Some 500\<rparr> \<and>
      handler_part_000 E r w = runIOSTest E r query (emit (E_ParseQuery (RawQuery r)) w))"
  by (auto simp: handler_part_000_def handler_main_go_def WriteHeader_def fresh_def
      url_ParseQuery_def emit_def testTypeAndroid_def testTypeIOS_def split: sum.splits)

theorem C8_variants_witness:
  "\<not> (Header_Get (Header (demo_request ''test_type=android'')) ''Authorization'' = secret demo_env \<and>
      (\<exists>query. ParseQuery demo_env (RawQuery (demo_request ''test_type=android'')) = Inr query \<and>
         Values_Get query ''test_type'' = ''ios'')) \<and>
   handler_main_go demo_env (demo_request ''test_type=android'') (fresh ''/'' []) =
     handler_part_000 demo_env (demo_request ''test_type=android'') (fresh ''/'' []) \<and>
   Header_Get (Header (demo_request ''test_type=ios'')) ''Authorization'' = secret demo_env \<and>
   ParseQuery demo_env ''test_type=ios'' = Inr [''test_type'' \<mapsto> [''ios'']] \<and>
   Values_Get [''test_type'' \<mapsto> [''ios'']] ''test_type'' = ''ios'' \<and>
   handler_main_go demo_env (demo_request ''test_type=ios'') (fresh ''/'' []) =
     (fresh ''/'' [])\<lparr>trace := [E_ParseQuery ''test_type=ios''], status := Some 500\<rparr> \<and>
   handler_part_000 demo_env (demo_request ''test_type=ios'') (fresh ''/'' []) =
     runIOSTest demo_env (demo_request ''test_type=ios'') [''test_type'' \<mapsto> [''ios'']]
       (emit (E_ParseQuery ''test_type=ios'') (fresh ''/'' []))"
  using
    C8_variants [where r = "demo_request ''test_type=android''" and E = demo_env
      and w = "fresh ''/'' []"]
    C8_variants [where r = "demo_request ''test_type=ios''" and E = demo_env
      and query = "[''test_type'' \<mapsto> [''ios'']]" and d = "''/''" and fs = "[]"
      and w = "fresh ''/'' []"]
  by (simp add: demo_request_def demo_env_def demo_server_def demo_ParseQuery_def Header_Get_def
      Values_Get_def)

section \<open>The Android runner: staging and commands\<close>

lemma os_OpenFile_frame:
  assumes "os_OpenFile E p w = (f, err, w1)"
  shows "trace w1 = trace w @ [E_OpenFile p]" "cwd w1 = cwd w" "status w1 = status w"
    "body w1 = body w" "panic w1 = panic w" "commands w1 = commands w"
  using assms
  by (auto simp: os_OpenFile_def commands_def split: if_splits option.splits)

lemma os_OpenFile_created:
  assumes "os_OpenFile E p w = (Some name, err, w1)"
  shows "name = p" "err = None" "resolve w p \<notin> set (files w)" "files w1 = resolve w p # files w"
  using assms
  by (auto simp: os_OpenFile_def split: if_splits option.splits)

lemma os_OpenFile_failed:
  assumes "os_OpenFile E p w = (None, err, w1)"
  shows "w1 = emit (E_OpenFile p) w" "err \<noteq> None"
  using assms
  by (auto simp: os_OpenFile_def split: if_splits option.splits)

lemma ReadAll_TeeReader_frame:
  assumes "ReadAll_TeeReader E r f w = (err, w1)"
  shows "w1 = emit E_ReadAll w"
  using assms
  by (auto simp: ReadAll_TeeReader_def split: if_splits option.splits)

lemma os_Remove_simps [simp]:
  "trace (os_Remove p w) = trace w @ [E_Remove p]" "cwd (os_Remove p w) = cwd w"
  "status (os_Remove p w) = status w" "body (os_Remove p w) = body w"
  "panic (os_Remove p w) = panic w" "commands (os_Remove p w) = commands w"
  "status_code (os_Remove p w) = status_code w"
  "files (os_Remove p w) = removeAll (resolve w p) (files w)"
  by (simp_all add: os_Remove_def commands_def status_code_def)

lemma android_locked_install_fails:
  assumes "run E (length (commands w)) (adb_install name) = (result, Some e)"
  shows "android_locked E testPackage name w =
           Write result (Write nl (Write e (WriteHeader 400 (emit (E_Exec (adb_install name)) w))))"
  using assms by (simp add: android_locked_def CombinedOutput_eq adb_install_def)

lemma android_locked_instrument_fails:
  assumes "run E (length (commands w)) (adb_install name) = (installed, None)"
    and "run E (Suc (length (commands w))) (adb_instrument testPackage) = (result, Some e)"
  shows "android_locked E testPackage name w =
           Write result (Write nl (Write e (WriteHeader 400
             (emit (E_Exec (adb_instrument testPackage)) (emit (E_Exec (adb_install name)) w)))))"
  using assms
  by (simp add: android_locked_def CombinedOutput_eq adb_install_def adb_instrument_def)

lemma android_locked_succeeds:
  assumes "run E (length (commands w)) (adb_install name) = (installed, None)"
    and "run E (Suc (length (commands w))) (adb_instrument testPackage) = (result, None)"
  shows "android_locked E testPackage name w =
           Write result
             (emit (E_Exec (adb_instrument testPackage)) (emit (E_Exec (adb_install name)) w))"
  using assms
  by (simp add: android_locked_def CombinedOutput_eq adb_install_def adb_instrument_def)

lemma runAndroidTest_staged:
  assumes "Values_Get query ''test_package'' \<noteq> []"
    and "RandomAlphaNumericString E 5 = Inr suffix"
    and "os_OpenFile E (filepath_Join (TempDir E) (''test_'' @ suffix @ ''.apk'')) w = (Some name, err, w1)"
    and "ReadAll_TeeReader E r (Some name) w1 = (None, w2)"
  shows "runAndroidTest E r query w =
           os_Remove name
             (emit E_Unlock
               (android_locked E (Values_Get query ''test_package'') name
                 (emit E_Lock
                   (emit (E_Log (''android: Installing and running '' @ Values_Get query ''test_package''))
                     (emit E_Close (emit E_ReadAll w1))))))"
proof -
  have "err = None" using assms(3) by (rule os_OpenFile_created)
  moreover have "w2 = emit E_ReadAll w1" using assms(4) by (rule ReadAll_TeeReader_frame)
  ultimately show ?thesis
    using assms by (simp add: runAndroidTest_def android_staged_def os_IsExist_def)
qed

text \<open>
  C5. In the Android runner, once the upload is staged: if \<^verbatim>\<open>adb install\<close> fails, the
  response is 400, its body is the error text, a newline and the combined output of the
  command, and the instrumentation command is not run; if the installation succeeds and
  the instrumentation fails, the response is 400 with the error text, a newline and that
  command's output; if both succeed, the status is the default 200 and the body is exactly
  the output of the instrumentation command.
\<close>

theorem C5_android_commands:
  assumes "Values_Get query ''test_package'' \<noteq> []"
    and "RandomAlphaNumericString E 5 = Inr suffix"
    and "os_OpenFile E (filepath_Join (TempDir E) (''test_'' @ suffix @ ''.apk'')) w = (Some name, err, w1)"
    and "ReadAll_TeeReader E r (Some name) w1 = (None, w2)"
    and "status w = None" and "body w = []"
  shows "(run E (length (commands w)) (adb_install name) = (result, Some e) \<longrightarrow>
            status_code (runAndroidTest E r query w) = 400 \<and>
            body (runAndroidTest E r query w) = e @ nl @ result \<and>
            commands (runAndroidTest E r query w) = commands w @ [adb_install name]) \<and>
         (run E (length (commands w)) (adb_install name) = (installed, None) \<and>
          run E (Suc (length (commands w))) (adb_instrument (Values_Get query ''test_package'')) =
            (result, Some e) \<longrightarrow>
            status_code (runAndroidTest E r query w) = 400 \<and>
            body (runAndroidTest E r query w) = e @ nl @ result \<and>
            commands (runAndroidTest E r query w) =
              commands w @ [adb_install name, adb_instrument (Values_Get query ''test_package'')]) \<and>
         (run E (length (commands w)) (adb_install name) = (installed, None) \<and>
          run E (Suc (length (commands w))) (adb_instrument (Values_Get query ''test_package'')) =
            (result, None) \<longrightarrow>
            status_code (runAndroidTest E r query w) = 200 \<and>
            body (runAndroidTest E r query w) = result \<and>
            commands (runAndroidTest E r query w) =
              commands w @ [adb_install name, adb_instrument (Values_Get query ''test_package'')])"
proof -
  define pkg where "pkg = Values_Get query ''test_package''"
  define W where "W = emit E_Lock
      (emit (E_Log (''android: Installing and running '' @ pkg)) (emit E_Close (emit E_ReadAll w1)))"
  have run: "runAndroidTest E r query w = os_Remove name (emit E_Unlock (android_locked E pkg name W))"
    unfolding W_def pkg_def using assms(1-4) by (rule runAndroidTest_staged)
  have frame: "commands W = commands w" "status W = None" "body W = []"
    unfolding W_def using os_OpenFile_frame [OF assms(3)] assms(5,6) by simp_all
  have install_fails: "status_code (runAndroidTest E r query w) = 400 \<and>
      body (runAndroidTest E r query w) = e @ nl @ result \<and>
      commands (runAndroidTest E r query w) = commands w @ [adb_install name]"
    if "run E (length (commands w)) (adb_install name) = (result, Some e)"
  proof -
    from that have "run E (length (commands W)) (adb_install name) = (result, Some e)"
      by (simp add: frame)
    from android_locked_install_fails [OF this, of pkg] show ?thesis
      by (simp add: run frame status_code_def)
  qed
  have instrument_fails: "status_code (runAndroidTest E r query w) = 400 \<and>
      body (runAndroidTest E r query w) = e @ nl @ result \<and>
      commands (runAndroidTest E r query w) = commands w @ [adb_install name, adb_instrument pkg]"
    if "run E (length (commands w)) (adb_install name) = (installed, None)"
      and "run E (Suc (length (commands w))) (adb_instrument pkg) = (result, Some e)"
  proof -
    from that have "run E (length (commands W)) (adb_install name) = (installed, None)"
      and "run E (Suc (length (commands W))) (adb_instrument pkg) = (result, Some e)"
      by (simp_all add: frame)
    from android_locked_instrument_fails [OF this] show ?thesis
      by (simp add: run frame status_code_def)
  qed
  have succeeds: "status_code (runAndroidTest E r query w) = 200 \<and>
      body (runAndroidTest E r query w) = result \<and>
      commands (runAndroidTest E r query w) = commands w @ [adb_install name, adb_instrument pkg]"
    if "run E (length (commands w)) (adb_install name) = (installed, None)"
      and "run E (Suc (length (commands w))) (adb_instrument pkg) = (result, None)"
  proof -
    from that have "run E (length (commands W)) (adb_install name) = (installed, None)"
      and "run E (Suc (length (commands W))) (adb_instrument pkg) = (result, None)"
      by (simp_all add: frame)
    from android_locked_succeeds [OF this] show ?thesis
      by (simp add: run frame status_code_def)
  qed
  from install_fails instrument_fails succeeds show ?thesis
    unfolding pkg_def by blast
qed


lemma demo_token:
  assumes "E = demo_server (\<lambda>p. None) f"
  shows "RandomAlphaNumericString E 5 = Inr ''abcde''"
  unfolding assms
  by (simp add: RandomAlphaNumericString_def randomStringFromAlphabet_def eval_nat_numeral
      stringAlphaNumeric_def stringAlpha_def stringAlphaUpper_def stringNumeric_def demo_server_def)

lemma demo_apk_created:
  assumes "E = demo_server (\<lambda>p. None) f"
  shows "os_OpenFile E (filepath_Join (TempDir E) (''test_'' @ ''abcde'' @ ''.apk'')) (fresh ''/'' []) =
           (Some ''/tmp/test_abcde.apk'', None,
            (emit (E_OpenFile ''/tmp/test_abcde.apk'') (fresh ''/'' []))\<lparr>files := [''/tmp/test_abcde.apk'']\<rparr>)"
  unfolding assms
  by (simp add: os_OpenFile_def path_defs resolve_def fresh_def demo_server_def)

lemma demo_upload_read:
  assumes "E = demo_server (\<lambda>p. None) f"
  shows "ReadAll_TeeReader E (demo_request raw) (Some name) w = (None, emit E_ReadAll w)"
  unfolding assms by (simp add: ReadAll_TeeReader_def demo_request_def demo_server_def)

theorem C5_android_commands_witness:
  "status_code (runAndroidTest install_fails_env (demo_request []) android_query (fresh ''/'' [])) = 400 \<and>
   body (runAndroidTest install_fails_env (demo_request []) android_query (fresh ''/'' [])) =
     ''exit status 1'' @ nl @ ''Failure [INSTALL_FAILED]'' \<and>
   commands (runAndroidTest install_fails_env (demo_request []) android_query (fresh ''/'' [])) =
     [adb_install ''/tmp/test_abcde.apk''] \<and>
   status_code (runAndroidTest instrument_fails_env (demo_request []) android_query (fresh ''/'' [])) = 400 \<and>
   body (runAndroidTest instrument_fails_env (demo_request []) android_query (fresh ''/'' [])) =
     ''exit status 1'' @ nl @ ''FAILURES!!!'' \<and>
   commands (runAndroidTest instrument_fails_env (demo_request []) android_query (fresh ''/'' [])) =
     [adb_install ''/tmp/test_abcde.apk'', adb_instrument ''com.example.test''] \<and>
   status_code (runAndroidTest demo_env (demo_request []) android_query (fresh ''/'' [])) = 200 \<and>
   body (runAndroidTest demo_env (demo_request []) android_query (fresh ''/'' [])) = ''ok'' \<and>
   commands (runAndroidTest demo_env (demo_request []) android_query (fresh ''/'' [])) =
     [adb_install ''/tmp/test_abcde.apk'', adb_instrument ''com.example.test'']"
proof -
  have pkg: "Values_Get android_query ''test_package'' = ''com.example.test''"
    by (simp add: android_query_def Values_Get_def)
  then have present: "Values_Get android_query ''test_package'' \<noteq> []"
    by simp
  have start: "status (fresh ''/'' []) = None" "body (fresh ''/'' []) = []"
    "commands (fresh ''/'' []) = []"
    by (simp_all add: fresh_def commands_def)
  note install = install_fails_env_def and instrument = instrument_fails_env_def
    and succeed = demo_env_def
  have one:
    "run install_fails_env (length (commands (fresh ''/'' []))) (adb_install ''/tmp/test_abcde.apk'') =
       (''Failure [INSTALL_FAILED]'', Some ''exit status 1'')"
    by (simp add: install_fails_env_def demo_server_def start)
  have two:
    "run instrument_fails_env (length (commands (fresh ''/'' []))) (adb_install ''/tmp/test_abcde.apk'') =
       (''Success'', None) \<and>
     run instrument_fails_env (Suc (length (commands (fresh ''/'' []))))
       (adb_instrument (Values_Get android_query ''test_package'')) = (''FAILURES!!!'', Some ''exit status 1'')"
    by (simp add: instrument_fails_env_def demo_server_def start)
  have three:
    "run demo_env (length (commands (fresh ''/'' []))) (adb_install ''/tmp/test_abcde.apk'') =
       (''ok'', None) \<and>
     run demo_env (Suc (length (commands (fresh ''/'' []))))
       (adb_instrument (Values_Get android_query ''test_package'')) = (''ok'', None)"
    by (simp add: demo_env_def demo_server_def start)
  from one two three
    C5_android_commands [where result = "''Failure [INSTALL_FAILED]''" and e = "''exit status 1''",
      OF present demo_token [OF install] demo_apk_created [OF install]
      demo_upload_read [OF install] start(1,2)]
    C5_android_commands [where installed = "''Success''" and result = "''FAILURES!!!''"
      and e = "''exit status 1''",
      OF present demo_token [OF instrument] demo_apk_created [OF instrument]
      demo_upload_read [OF instrument] start(1,2)]
    C5_android_commands [where installed = "''ok''" and result = "''ok''",
      OF present demo_token [OF succeed] demo_apk_created [OF succeed]
      demo_upload_read [OF succeed] start(1,2)]
  show ?thesis
    by (simp add: start(3) pkg)
qed


section \<open>The iOS runner: staging and the scheme loop\<close>

lemma os_Chdir_ok:
  assumes "os_Chdir E p w = (None, w1)"
  shows "w1 = (emit (E_Chdir p) w)\<lparr>cwd := resolve w p\<rparr>"
  using assms by (auto simp: os_Chdir_def split: option.splits)

lemma os_Mkdir_ok:
  assumes "os_Mkdir E p w = (None, w1)"
  shows "w1 = (emit (E_Mkdir p) w)\<lparr>files := resolve w p # files w\<rparr>"
  using assms by (auto simp: os_Mkdir_def split: if_splits option.splits)

lemma os_RemoveAll_simps [simp]:
  "trace (os_RemoveAll p w) = trace w @ [E_RemoveAll p]" "cwd (os_RemoveAll p w) = cwd w"
  "status (os_RemoveAll p w) = status w" "body (os_RemoveAll p w) = body w"
  "panic (os_RemoveAll p w) = panic w" "commands (os_RemoveAll p w) = commands w"
  "status_code (os_RemoveAll p w) = status_code w"
  "files (os_RemoveAll p w) =
     filter (\<lambda>q. q \<noteq> resolve w p \<and> \<not> beneath (resolve w p) q) (files w)"
  by (simp_all add: os_RemoveAll_def commands_def status_code_def)

lemma ios_schemes_frame:
  "cwd (snd (ios_schemes E d ss tf w)) = cwd w \<and>
   files (snd (ios_schemes E d ss tf w)) = files w \<and>
   panic (snd (ios_schemes E d ss tf w)) = panic w"
  by (induction ss arbitrary: tf w) (simp_all add: CombinedOutput_eq split: prod.splits option.splits)

lemma ios_schemes_commands:
  "commands (snd (ios_schemes E d ss tf w)) = commands w @ map (xcodebuild d) ss"
  by (induction ss arbitrary: tf w) (simp_all add: CombinedOutput_eq split: prod.splits option.splits)

lemma ios_schemes_status_set:
  "status w \<noteq> None \<Longrightarrow> status (snd (ios_schemes E d ss tf w)) = status w"
  by (induction ss arbitrary: tf w) (auto simp: CombinedOutput_eq split: prod.splits option.splits)

lemma ios_schemes_status:
  "status (snd (ios_schemes E d ss tf w)) =
     (if ss = [] \<or> status w \<noteq> None then status w else Some 200)"
  by (cases ss) (auto simp: CombinedOutput_eq ios_schemes_status_set split: prod.splits option.splits)

lemma ios_schemes_body:
  "body (snd (ios_schemes E d ss tf w)) =
     body w @ concat (map (\<lambda>i. scheme_report E d (length (commands w) + i) (ss ! i)) [0..<length ss])"
proof (induction ss arbitrary: tf w)
  case Nil
  show ?case by simp
next
  case (Cons s ss)
  have shift: "map (\<lambda>i. scheme_report E d (length (commands w) + i) ((s # ss) ! i)) [0..<length (s # ss)] =
      scheme_report E d (length (commands w)) s #
      map (\<lambda>i. scheme_report E d (Suc (length (commands w)) + i) (ss ! i)) [0..<length ss]"
    by (simp add: upt_rec [of 0] map_Suc_upt [symmetric] del: upt_Suc)
  obtain result err where r: "run E (length (commands w)) (xcodebuild d s) = (result, err)"
    by (cases "run E (length (commands w)) (xcodebuild d s)")
  show ?case
  proof (cases err)
    case None
    with r have "scheme_report E d (length (commands w)) s =
        testStartMsg E s d @ nl @ ''!!TEST PASSED!!'' @ nl @ result"
      by (simp add: scheme_report_def testStartMsg_def xcodebuild_def)
    with r None show ?thesis
      unfolding shift by (simp add: Cons.IH CombinedOutput_eq)
  next
    case (Some e)
    with r have "scheme_report E d (length (commands w)) s =
        testStartMsg E s d @ nl @ ''!!TEST FAILED!!'' @ nl @ e @ nl @ result"
      by (simp add: scheme_report_def testStartMsg_def xcodebuild_def)
    with r Some show ?thesis
      unfolding shift by (simp add: Cons.IH CombinedOutput_eq)
  qed
qed

lemma ios_schemes_failed:
  "fst (ios_schemes E d ss tf w) =
     (tf \<or> (\<exists>i<length ss. scheme_failed E d (length (commands w) + i) (ss ! i)))"
proof (induction ss arbitrary: tf w)
  case Nil
  show ?case by simp
next
  case (Cons s ss)
  have shift: "(\<exists>i<length (s # ss). scheme_failed E d (length (commands w) + i) ((s # ss) ! i)) =
      (scheme_failed E d (length (commands w)) s \<or>
       (\<exists>i<length ss. scheme_failed E d (Suc (length (commands w)) + i) (ss ! i)))"
    by (auto simp: less_Suc_eq_0_disj)
  show ?case
    unfolding shift
    by (auto simp: Cons.IH CombinedOutput_eq scheme_failed_def xcodebuild_def
        split: prod.splits option.splits)
qed

lemma strings_Split_not_Nil [simp]: "strings_Split s sep \<noteq> []"
  by (induction s) (auto split: list.splits)

lemma ios_locked_eq:
  "ios_locked E d ss w =
     (if fst (ios_schemes E d ss False w) then snd (ios_schemes E d ss False w)
      else Write (''!!ALL TESTS PASSED!!'' @ nl) (snd (ios_schemes E d ss False w)))"
  by (simp add: ios_locked_def split: prod.splits)

lemma ios_locked_frame:
  "cwd (ios_locked E d ss w) = cwd w" "files (ios_locked E d ss w) = files w"
  "panic (ios_locked E d ss w) = panic w"
  by (simp_all add: ios_locked_eq ios_schemes_frame)

lemma ios_locked_commands:
  "commands (ios_locked E d ss w) = commands w @ map (xcodebuild d) ss"
  by (simp add: ios_locked_eq ios_schemes_commands)

lemma ios_locked_status:
  "status w = None \<Longrightarrow> status (ios_locked E d ss w) = Some 200"
  by (cases "ss = []") (simp_all add: ios_locked_eq ios_schemes_status)

lemma ios_locked_body:
  "body (ios_locked E d ss w) =
     body w @
     concat (map (\<lambda>i. scheme_report E d (length (commands w) + i) (ss ! i)) [0..<length ss]) @
     (if \<exists>i<length ss. scheme_failed E d (length (commands w) + i) (ss ! i) then []
      else ''!!ALL TESTS PASSED!!'' @ nl)"
  by (simp add: ios_locked_eq ios_schemes_body ios_schemes_failed)

lemma runIOSTest_staging:
  assumes "Values_Get query ''test_destination'' \<noteq> []"
    and "Values_Get query ''test_schemes'' \<noteq> []"
    and "os_Chdir E (TempDir E) w = (None, w1)"
    and "RandomAlphaNumericString E 5 = Inr sourceDir"
    and "os_Mkdir E sourceDir w1 = (None, w2)"
  shows "runIOSTest E r query w =
           os_RemoveAll sourceDir
             (ios_staged E r (Values_Get query ''test_destination'')
                (strings_Split (Values_Get query ''test_schemes'') (CHR '','')) sourceDir w2)"
  using assms by (simp add: runIOSTest_def)

lemma ios_staged_loop:
  assumes "os_Chdir E (filepath_Join (TempDir E) sourceDir) w2 = (None, w3)"
    and "os_OpenFile E (filepath_Join (filepath_Join (TempDir E) sourceDir) ''source.tgz'') w3 =
           (Some name, err, w4)"
    and "ReadAll_TeeReader E r (Some name) w4 = (None, w5)"
    and "snd (run E (length (commands w2)) (tar_xf name)) = None"
  shows "ios_staged E r dest ss sourceDir w2 =
           emit E_Unlock
             (ios_locked E dest ss
               (emit E_Lock
                 (emit (E_Exec (tar_xf name))
                   (emit (E_Log ''ios: Unpacking source'') (emit E_Close (emit E_ReadAll w4))))))"
proof -
  have "err = None" using assms(2) by (rule os_OpenFile_created)
  moreover have "w5 = emit E_ReadAll w4" using assms(3) by (rule ReadAll_TeeReader_frame)
  moreover have "commands w4 = commands w2"
    using os_OpenFile_frame(6) [OF assms(2)] os_Chdir_ok [OF assms(1)] by simp
  moreover obtain result where "run E (length (commands w2)) (tar_xf name) = (result, None)"
    using assms(4) by (cases "run E (length (commands w2)) (tar_xf name)") simp
  ultimately show ?thesis
    using assms(1-3)
    by (simp add: ios_staged_def os_IsExist_def CombinedOutput_eq)
qed

lemma ios_staged_open_fails:
  assumes "os_Chdir E (filepath_Join (TempDir E) sourceDir) w2 = (None, w3)"
    and "os_OpenFile E (filepath_Join (filepath_Join (TempDir E) sourceDir) ''source.tgz'') w3 =
           (None, Some err, w4)"
    and "\<not> IsExist err"
  shows "Body r \<noteq> [] \<Longrightarrow>
           ios_staged E r dest ss sourceDir w2 =
             Write ''invalid argument'' (WriteHeader 400 (emit E_ReadAll w4))"
    and "Body r = [] \<Longrightarrow> BodyErr r = Some e \<Longrightarrow>
           ios_staged E r dest ss sourceDir w2 = Write e (WriteHeader 400 (emit E_ReadAll w4))"
    and "Body r = [] \<Longrightarrow> BodyErr r = None \<Longrightarrow>
           ios_staged E r dest ss sourceDir w2 =
             go_panic nil_dereference
               (emit (E_Log ''ios: Unpacking source'') (emit E_Close (emit E_ReadAll w4)))"
  using assms
  by (simp_all add: ios_staged_def os_IsExist_def ReadAll_TeeReader_def)


section \<open>The scheme loop as a whole\<close>

lemma strings_Join_Cons: "strings_Join ((c # x) # xs) sep = c # strings_Join (x # xs) sep"
  by (cases xs) simp_all

lemma strings_Join_Split: "strings_Join (strings_Split s sep) sep = s"
proof (induction s)
  case Nil
  show ?case by simp
next
  case (Cons c s)
  show ?case
  proof (cases "strings_Split s sep")
    case Nil
    then show ?thesis by simp
  next
    case (Cons x xs)
    with Cons.IH show ?thesis
      by (simp add: strings_Join_Cons)
  qed
qed

lemma length_strings_Split: "length (strings_Split s sep) = Suc (count_list s sep)"
  by (induction s) (auto split: list.splits)

lemma strings_Split_pieces: "x \<in> set (strings_Split s sep) \<Longrightarrow> sep \<notin> set x"
  by (induction s arbitrary: x) (auto split: list.splits if_splits)

lemma demo_ios_staging:
  assumes "E = demo_server g f"
  shows "os_Chdir E (TempDir E) (fresh ''/'' []) = (None, in_tmp)"
    and "RandomAlphaNumericString E 5 = Inr ''abcde''"
    and "os_Mkdir E ''abcde'' in_tmp = (None, dir_made)"
    and "os_Chdir E (filepath_Join (TempDir E) ''abcde'') dir_made = (None, in_dir)"
  unfolding assms
  by (simp_all add: os_Chdir_def os_Mkdir_def resolve_def fresh_def emit_def demo_server_def
      in_tmp_def dir_made_def in_dir_def path_defs
      RandomAlphaNumericString_def randomStringFromAlphabet_def eval_nat_numeral
      stringAlphaNumeric_def stringAlpha_def stringAlphaUpper_def stringNumeric_def)

lemma demo_tgz_created:
  assumes "E = demo_server (\<lambda>p. None) f"
  shows "os_OpenFile E (filepath_Join (filepath_Join (TempDir E) ''abcde'') ''source.tgz'') in_dir =
           (Some ''/tmp/abcde/source.tgz'', None, tgz_created)"
  unfolding assms
  by (simp add: os_OpenFile_def resolve_def emit_def demo_server_def in_dir_def tgz_created_def
      path_defs)

lemma demo_ios_query:
  "Values_Get ios_query ''test_destination'' = ''sim''"
  "Values_Get ios_query ''test_schemes'' = ''A,B''"
  "strings_Split ''A,B'' (CHR '','') = [''A'', ''B'']"
  by (simp_all add: ios_query_def Values_Get_def)

lemma runIOSTest_loop:
  assumes "Values_Get query ''test_destination'' \<noteq> []"
    and "Values_Get query ''test_schemes'' \<noteq> []"
    and "os_Chdir E (TempDir E) w = (None, w1)"
    and "RandomAlphaNumericString E 5 = Inr sourceDir"
    and "os_Mkdir E sourceDir w1 = (None, w2)"
    and "os_Chdir E (filepath_Join (TempDir E) sourceDir) w2 = (None, w3)"
    and "os_OpenFile E (filepath_Join (filepath_Join (TempDir E) sourceDir) ''source.tgz'') w3 =
           (Some name, err, w4)"
    and "ReadAll_TeeReader E r (Some name) w4 = (None, w5)"
    and "snd (run E (length (commands w)) (tar_xf name)) = None"
  shows "\<exists>W. commands W = commands w @ [tar_xf name] \<and> status W = status w \<and> body W = body w \<and>
           runIOSTest E r query w =
             os_RemoveAll sourceDir
               (emit E_Unlock
                 (ios_locked E (Values_Get query ''test_destination'')
                    (strings_Split (Values_Get query ''test_schemes'') (CHR '','')) W))"
proof -
  have w1: "w1 = (emit (E_Chdir (TempDir E)) w)\<lparr>cwd := resolve w (TempDir E)\<rparr>"
    using assms(3) by (rule os_Chdir_ok)
  have w2: "w2 = (emit (E_Mkdir sourceDir) w1)\<lparr>files := resolve w1 sourceDir # files w1\<rparr>"
    using assms(5) by (rule os_Mkdir_ok)
  have w3: "w3 = (emit (E_Chdir (filepath_Join (TempDir E) sourceDir)) w2)
      \<lparr>cwd := resolve w2 (filepath_Join (TempDir E) sourceDir)\<rparr>"
    using assms(6) by (rule os_Chdir_ok)
  note w4 = os_OpenFile_frame [OF assms(7)]
  have c2: "commands w2 = commands w" "status w2 = status w" "body w2 = body w"
    by (simp_all add: w1 w2)
  have c4: "commands w4 = commands w" "status w4 = status w" "body w4 = body w"
    using w4 by (simp_all add: w1 w2 w3)
  let ?W = "emit E_Lock (emit (E_Exec (tar_xf name))
      (emit (E_Log ''ios: Unpacking source'') (emit E_Close (emit E_ReadAll w4))))"
  have tar: "snd (run E (length (commands w2)) (tar_xf name)) = None"
    using assms(9) by (simp add: c2)
  have "runIOSTest E r query w =
      os_RemoveAll sourceDir
        (ios_staged E r (Values_Get query ''test_destination'')
          (strings_Split (Values_Get query ''test_schemes'') (CHR '','')) sourceDir w2)"
    using assms(1-5) by (rule runIOSTest_staging)
  also have "ios_staged E r (Values_Get query ''test_destination'')
      (strings_Split (Values_Get query ''test_schemes'') (CHR '','')) sourceDir w2 =
      emit E_Unlock (ios_locked E (Values_Get query ''test_destination'')
        (strings_Split (Values_Get query ''test_schemes'') (CHR '','')) ?W)"
    using assms(6-8) tar by (rule ios_staged_loop)
  finally have "runIOSTest E r query w =
      os_RemoveAll sourceDir (emit E_Unlock (ios_locked E (Values_Get query ''test_destination'')
        (strings_Split (Values_Get query ''test_schemes'') (CHR '','')) ?W))" .
  moreover have "commands ?W = commands w @ [tar_xf name]" "status ?W = status w" "body ?W = body w"
    by (simp_all add: c4)
  ultimately show ?thesis by blast
qed

text \<open>
  C2. In the iOS runner, once the upload is staged and unpacked, the command
  \<^verbatim>\<open>xcodebuild test -destination <destination> -scheme <scheme>\<close> is run once for every
  scheme of the list, in the order of the list, whatever the outcomes. The
  body is, scheme after scheme, the report of that scheme: the start line, then
  \<open>!!TEST FAILED!!\<close> with the error text and the output when the command failed, or
  \<open>!!TEST PASSED!!\<close> with the output when it succeeded. The line
  \<open>!!ALL TESTS PASSED!!\<close> ends the body exactly when no scheme failed, and the status
  is 200 in either case.
\<close>

theorem C2_ios_scheme_loop:
  assumes "Values_Get query ''test_destination'' \<noteq> []"
    and "Values_Get query ''test_schemes'' \<noteq> []"
    and "os_Chdir E (TempDir E) w = (None, w1)"
    and "RandomAlphaNumericString E 5 = Inr sourceDir"
    and "os_Mkdir E sourceDir w1 = (None, w2)"
    and "os_Chdir E (filepath_Join (TempDir E) sourceDir) w2 = (None, w3)"
    and "os_OpenFile E (filepath_Join (filepath_Join (TempDir E) sourceDir) ''source.tgz'') w3 =
           (Some name, err, w4)"
    and "ReadAll_TeeReader E r (Some name) w4 = (None, w5)"
    and "snd (run E (length (commands w)) [''tar'', ''xf'', name]) = None"
    and "status w = None"
    and "dest = Values_Get query ''test_destination''"
    and "schemes = strings_Split (Values_Get query ''test_schemes'') (CHR '','')"
    and "k = Suc (length (commands w))"
  shows "commands (runIOSTest E r query w) =
           commands w @ [''tar'', ''xf'', name] #
           map (\<lambda>scheme. [''xcodebuild'', ''test'', ''-destination'', dest, ''-scheme'', scheme])
             schemes \<and>
         body (runIOSTest E r query w) =
           body w @
           concat (map (\<lambda>i. scheme_report E dest (k + i) (schemes ! i)) [0..<length schemes]) @
           (if \<exists>i<length schemes. scheme_failed E dest (k + i) (schemes ! i) then []
            else ''!!ALL TESTS PASSED!!'' @ nl) \<and>
         status_code (runIOSTest E r query w) = 200"
proof -
  have tar: "snd (run E (length (commands w)) (tar_xf name)) = None"
    using assms(9) by (simp add: tar_xf_def)
  from runIOSTest_loop [OF assms(1-8) tar] obtain W where
    W: "commands W = commands w @ [tar_xf name]" "status W = status w" "body W = body w"
    and run: "runIOSTest E r query w =
        os_RemoveAll sourceDir (emit E_Unlock (ios_locked E dest schemes W))"
    unfolding assms(11,12) by blast
  have argv: "xcodebuild dest =
      (\<lambda>scheme. [''xcodebuild'', ''test'', ''-destination'', dest, ''-scheme'', scheme])"
    by (rule ext) (simp add: xcodebuild_def)
  have "status W = None" using W(2) assms(10) by simp
  then have "status (ios_locked E dest schemes W) = Some 200"
    by (rule ios_locked_status)
  then show ?thesis
    unfolding run assms(13)
    by (simp add: ios_locked_commands ios_locked_body W status_code_def argv tar_xf_def)
qed

lemma demo_start:
  "status (fresh ''/'' []) = None" "body (fresh ''/'' []) = []" "commands (fresh ''/'' []) = []"
  by (simp_all add: fresh_def commands_def)

theorem C2_ios_scheme_loop_witness:
  "commands (runIOSTest scheme_A_fails_env (demo_request []) ios_query (fresh ''/'' [])) =
     [[''tar'', ''xf'', ''/tmp/abcde/source.tgz''],
      [''xcodebuild'', ''test'', ''-destination'', ''sim'', ''-scheme'', ''A''],
      [''xcodebuild'', ''test'', ''-destination'', ''sim'', ''-scheme'', ''B'']] \<and>
   body (runIOSTest scheme_A_fails_env (demo_request []) ios_query (fresh ''/'' [])) =
     ''ios: Testing scheme '' @ dq ''A'' @ '' on destination '' @ dq ''sim'' @ nl @
     ''!!TEST FAILED!!'' @ nl @ ''exit status 65'' @ nl @ ''** TEST FAILED **'' @
     ''ios: Testing scheme '' @ dq ''B'' @ '' on destination '' @ dq ''sim'' @ nl @
     ''!!TEST PASSED!!'' @ nl @ ''ok'' \<and>
   status_code (runIOSTest scheme_A_fails_env (demo_request []) ios_query (fresh ''/'' [])) = 200 \<and>
   commands (runIOSTest demo_env (demo_request []) ios_query (fresh ''/'' [])) =
     [[''tar'', ''xf'', ''/tmp/abcde/source.tgz''],
      [''xcodebuild'', ''test'', ''-destination'', ''sim'', ''-scheme'', ''A''],
      [''xcodebuild'', ''test'', ''-destination'', ''sim'', ''-scheme'', ''B'']] \<and>
   body (runIOSTest demo_env (demo_request []) ios_query (fresh ''/'' [])) =
     ''ios: Testing scheme '' @ dq ''A'' @ '' on destination '' @ dq ''sim'' @ nl @ ''!!TEST PASSED!!'' @ nl @ ''ok'' @
     ''ios: Testing scheme '' @ dq ''B'' @ '' on destination '' @ dq ''sim'' @ nl @ ''!!TEST PASSED!!'' @ nl @ ''ok'' @
     ''!!ALL TESTS PASSED!!'' @ nl \<and>
   status_code (runIOSTest demo_env (demo_request []) ios_query (fresh ''/'' [])) = 200"
proof -
  note fails = scheme_A_fails_env_def and passes = demo_env_def
  have present: "Values_Get ios_query ''test_destination'' \<noteq> []"
    "Values_Get ios_query ''test_schemes'' \<noteq> []"
    by (simp_all add: demo_ios_query)
  have tar: "snd (run scheme_A_fails_env (length (commands (fresh ''/'' []))) [''tar'', ''xf'', ''/tmp/abcde/source.tgz'']) = None"
    "snd (run demo_env (length (commands (fresh ''/'' []))) [''tar'', ''xf'', ''/tmp/abcde/source.tgz'']) = None"
    by (simp_all add: scheme_A_fails_env_def demo_env_def demo_server_def demo_start)
  have upt2: "[0..<length [''A'', ''B'']] = [0, Suc 0]"
    by (simp add: upt_rec)
  have reports:
    "scheme_report scheme_A_fails_env ''sim'' (Suc 0) ''A'' =
       ''ios: Testing scheme '' @ dq ''A'' @ '' on destination '' @ dq ''sim'' @ nl @
       ''!!TEST FAILED!!'' @ nl @ ''exit status 65'' @ nl @ ''** TEST FAILED **''"
    "scheme_report scheme_A_fails_env ''sim'' (Suc (Suc 0)) ''B'' =
       ''ios: Testing scheme '' @ dq ''B'' @ '' on destination '' @ dq ''sim'' @ nl @ ''!!TEST PASSED!!'' @ nl @ ''ok''"
    "scheme_report demo_env ''sim'' (Suc 0) ''A'' =
       ''ios: Testing scheme '' @ dq ''A'' @ '' on destination '' @ dq ''sim'' @ nl @ ''!!TEST PASSED!!'' @ nl @ ''ok''"
    "scheme_report demo_env ''sim'' (Suc (Suc 0)) ''B'' =
       ''ios: Testing scheme '' @ dq ''B'' @ '' on destination '' @ dq ''sim'' @ nl @ ''!!TEST PASSED!!'' @ nl @ ''ok''"
    "scheme_failed scheme_A_fails_env ''sim'' (Suc 0) ''A''"
    "\<not> scheme_failed demo_env ''sim'' (Suc 0) ''A''"
    "\<not> scheme_failed demo_env ''sim'' (Suc (Suc 0)) ''B''"
    by (simp_all add: scheme_report_def scheme_failed_def scheme_A_fails_env_def demo_env_def
        demo_server_def)
  have some: "(\<exists>i<Suc (Suc 0). scheme_failed scheme_A_fails_env ''sim'' (Suc i) ([''A'', ''B''] ! i))"
    using reports(5) by (intro exI [of _ 0]) simp
  have none: "\<not> (\<exists>i<Suc (Suc 0). scheme_failed demo_env ''sim'' (Suc i) ([''A'', ''B''] ! i))"
    by (simp add: scheme_failed_def demo_env_def demo_server_def)
  from C2_ios_scheme_loop [OF present demo_ios_staging [OF fails] demo_tgz_created [OF fails]
      demo_upload_read [OF fails] tar(1) demo_start(1) refl refl refl]
    C2_ios_scheme_loop [OF present demo_ios_staging [OF passes] demo_tgz_created [OF passes]
      demo_upload_read [OF passes] tar(2) demo_start(1) refl refl refl]
  show ?thesis
    using some none
    by (simp add: demo_ios_query demo_start upt2 reports(1-4))
qed

text \<open>
  C9. The schemes the iOS runner tests are the pieces of the \<open>test_schemes\<close> string
  between its commas: each is passed as it is after \<open>-scheme\<close>, one command per piece
  and in order. Joining the pieces with commas gives the string back, there is one piece
  more than there are commas and no piece contains a comma, so nothing is trimmed, dropped
  or merged; the inputs \<open>A,\<close> and \<open>A,,B\<close> keep their empty pieces.
\<close>

theorem C9_scheme_list:
  assumes "Values_Get query ''test_destination'' \<noteq> []"
    and "Values_Get query ''test_schemes'' \<noteq> []"
    and "os_Chdir E (TempDir E) w = (None, w1)"
    and "RandomAlphaNumericString E 5 = Inr sourceDir"
    and "os_Mkdir E sourceDir w1 = (None, w2)"
    and "os_Chdir E (filepath_Join (TempDir E) sourceDir) w2 = (None, w3)"
    and "os_OpenFile E (filepath_Join (filepath_Join (TempDir E) sourceDir) ''source.tgz'') w3 =
           (Some name, err, w4)"
    and "ReadAll_TeeReader E r (Some name) w4 = (None, w5)"
    and "snd (run E (length (commands w)) (tar_xf name)) = None"
  shows "commands (runIOSTest E r query w) =
           commands w @ tar_xf name #
           map (\<lambda>scheme. [''xcodebuild'', ''test'', ''-destination'',
                            Values_Get query ''test_destination'', ''-scheme'', scheme])
             (strings_Split (Values_Get query ''test_schemes'') (CHR '','')) \<and>
         strings_Join (strings_Split (Values_Get query ''test_schemes'') (CHR '','')) (CHR '','') =
           Values_Get query ''test_schemes'' \<and>
         length (strings_Split (Values_Get query ''test_schemes'') (CHR '','')) =
           Suc (count_list (Values_Get query ''test_schemes'') (CHR '','')) \<and>
         CHR '','' \<notin> set (concat (strings_Split (Values_Get query ''test_schemes'') (CHR '',''))) \<and>
         strings_Split ''A,'' (CHR '','') = [''A'', []] \<and>
         strings_Split ''A,,B'' (CHR '','') = [''A'', [], ''B'']"
proof -
  from runIOSTest_loop [OF assms] obtain W where
    W: "commands W = commands w @ [tar_xf name]"
    and run: "runIOSTest E r query w =
        os_RemoveAll sourceDir (emit E_Unlock (ios_locked E (Values_Get query ''test_destination'')
          (strings_Split (Values_Get query ''test_schemes'') (CHR '','')) W))"
    by blast
  have "xcodebuild (Values_Get query ''test_destination'') =
      (\<lambda>scheme. [''xcodebuild'', ''test'', ''-destination'',
                   Values_Get query ''test_destination'', ''-scheme'', scheme])"
    by (rule ext) (simp add: xcodebuild_def)
  then have "commands (runIOSTest E r query w) =
           commands w @ tar_xf name #
           map (\<lambda>scheme. [''xcodebuild'', ''test'', ''-destination'',
                            Values_Get query ''test_destination'', ''-scheme'', scheme])
             (strings_Split (Values_Get query ''test_schemes'') (CHR '',''))"
    unfolding run by (simp add: ios_locked_commands W)
  moreover have "strings_Split ''A,'' (CHR '','') = [''A'', []]"
    "strings_Split ''A,,B'' (CHR '','') = [''A'', [], ''B'']"
    by simp_all
  moreover have "CHR '','' \<notin> set (concat (strings_Split (Values_Get query ''test_schemes'') (CHR '','')))"
    using strings_Split_pieces [of _ "Values_Get query ''test_schemes''" "CHR '',''"] by auto
  ultimately show ?thesis
    by (simp only: strings_Join_Split length_strings_Split simp_thms)
qed

theorem C9_scheme_list_witness:
  "commands (runIOSTest demo_env (demo_request []) ios_query_gap (fresh ''/'' [])) =
     [[''tar'', ''xf'', ''/tmp/abcde/source.tgz''],
      [''xcodebuild'', ''test'', ''-destination'', ''sim'', ''-scheme'', ''A''],
      [''xcodebuild'', ''test'', ''-destination'', ''sim'', ''-scheme'', []],
      [''xcodebuild'', ''test'', ''-destination'', ''sim'', ''-scheme'', ''B'']] \<and>
   strings_Join (strings_Split ''A,,B'' (CHR '','')) (CHR '','') = ''A,,B'' \<and>
   length (strings_Split ''A,,B'' (CHR '','')) = 3 \<and>
   CHR '','' \<notin> set (concat (strings_Split ''A,,B'' (CHR '','')))"
proof -
  have query: "Values_Get ios_query_gap ''test_destination'' = ''sim''"
    "Values_Get ios_query_gap ''test_schemes'' = ''A,,B''"
    by (simp_all add: ios_query_gap_def Values_Get_def)
  then have present: "Values_Get ios_query_gap ''test_destination'' \<noteq> []"
    "Values_Get ios_query_gap ''test_schemes'' \<noteq> []"
    by simp_all
  have tar: "snd (run demo_env (length (commands (fresh ''/'' []))) (tar_xf ''/tmp/abcde/source.tgz'')) = None"
    by (simp add: demo_env_def demo_server_def)
  from C9_scheme_list [OF present demo_ios_staging [OF demo_env_def]
      demo_tgz_created [OF demo_env_def] demo_upload_read [OF demo_env_def] tar]
  show ?thesis
    by (simp add: query demo_start tar_xf_def)
qed

section \<open>When the staging file cannot be created\<close>

lemma runAndroidTest_open_fails:
  assumes "Values_Get query ''test_package'' \<noteq> []"
    and "RandomAlphaNumericString E 5 = Inr suffix"
    and "os_OpenFile E (filepath_Join (TempDir E) (''test_'' @ suffix @ ''.apk'')) w = (None, Some err, w1)"
    and "\<not> IsExist err"
  shows "runAndroidTest E r query w =
           go_panic nil_dereference
             (emit (E_OpenFile (filepath_Join (TempDir E) (''test_'' @ suffix @ ''.apk''))) w)"
proof -
  have "w1 = emit (E_OpenFile (filepath_Join (TempDir E) (''test_'' @ suffix @ ''.apk''))) w"
    using assms(3) by (rule os_OpenFile_failed)
  with assms show ?thesis
    by (simp add: runAndroidTest_def os_IsExist_def)
qed

lemma runIOSTest_open_fails:
  assumes "Values_Get query ''test_destination'' \<noteq> []"
    and "Values_Get query ''test_schemes'' \<noteq> []"
    and "os_Chdir E (TempDir E) w = (None, w1)"
    and "RandomAlphaNumericString E 5 = Inr sourceDir"
    and "os_Mkdir E sourceDir w1 = (None, w2)"
    and "os_Chdir E (filepath_Join (TempDir E) sourceDir) w2 = (None, w3)"
    and "os_OpenFile E (filepath_Join (filepath_Join (TempDir E) sourceDir) ''source.tgz'') w3 =
           (None, Some err, w4)"
    and "\<not> IsExist err"
  shows "Body r \<noteq> [] \<Longrightarrow>
           runIOSTest E r query w =
             os_RemoveAll sourceDir (Write ''invalid argument'' (WriteHeader 400 (emit E_ReadAll w4)))"
    and "Body r = [] \<Longrightarrow> BodyErr r = None \<Longrightarrow>
           runIOSTest E r query w =
             os_RemoveAll sourceDir
               (go_panic nil_dereference
                 (emit (E_Log ''ios: Unpacking source'') (emit E_Close (emit E_ReadAll w4))))"
    and "commands w4 = commands w" and "status w4 = status w" and "body w4 = body w"
    and "panic w4 = panic w"
proof -
  note staged = runIOSTest_staging [OF assms(1-5)]
  show "Body r \<noteq> [] \<Longrightarrow>
           runIOSTest E r query w =
             os_RemoveAll sourceDir (Write ''invalid argument'' (WriteHeader 400 (emit E_ReadAll w4)))"
    unfolding staged by (simp add: ios_staged_open_fails(1) [OF assms(6-8)])
  show "Body r = [] \<Longrightarrow> BodyErr r = None \<Longrightarrow>
           runIOSTest E r query w =
             os_RemoveAll sourceDir
               (go_panic nil_dereference
                 (emit (E_Log ''ios: Unpacking source'') (emit E_Close (emit E_ReadAll w4))))"
    unfolding staged by (simp add: ios_staged_open_fails(3) [OF assms(6-8)])
  have w1: "w1 = (emit (E_Chdir (TempDir E)) w)\<lparr>cwd := resolve w (TempDir E)\<rparr>"
    using assms(3) by (rule os_Chdir_ok)
  have w2: "w2 = (emit (E_Mkdir sourceDir) w1)\<lparr>files := resolve w1 sourceDir # files w1\<rparr>"
    using assms(5) by (rule os_Mkdir_ok)
  have w3: "w3 = (emit (E_Chdir (filepath_Join (TempDir E) sourceDir)) w2)
      \<lparr>cwd := resolve w2 (filepath_Join (TempDir E) sourceDir)\<rparr>"
    using assms(6) by (rule os_Chdir_ok)
  note w4 = os_OpenFile_frame [OF assms(7)]
  show "commands w4 = commands w" "status w4 = status w" "body w4 = body w" "panic w4 = panic w"
    using w4 by (simp_all add: w1 w2 w3)
qed

text \<open>
  C10. In both runners the check after the exclusive create covers only the case that the
  file exists: when \<^verbatim>\<open>os.OpenFile\<close> fails with another error (permission denied, say),
  the check returns no response and the runner goes on with a nil file handle. In the
  Android runner the next statement, \<^verbatim>\<open>defer os.Remove(apkFile.Name())\<close>, dereferences
  it: the handler panics with no response written, the body unread and no file created.
  In the iOS runner the copy of a non-empty body fails on the nil handle with
  \<open>invalid argument\<close>, which is answered with status 400 and that text and no panic;
  with an empty body nothing is written, and the runner panics at
  \<^verbatim>\<open>sourceFile.Name()\<close> before any command is run.
\<close>

theorem C10_open_fails_otherwise:
  "(Values_Get query ''test_package'' \<noteq> [] \<and> RandomAlphaNumericString E 5 = Inr suffix \<and>
    os_OpenFile E (filepath_Join (TempDir E) (''test_'' @ suffix @ ''.apk'')) w = (None, Some err, w1) \<and>
    \<not> IsExist err \<longrightarrow>
      panic (runAndroidTest E r query w) = Some nil_dereference \<and>
      status (runAndroidTest E r query w) = status w \<and>
      body (runAndroidTest E r query w) = body w \<and>
      files (runAndroidTest E r query w) = files w \<and>
      trace (runAndroidTest E r query w) =
        trace w @ [E_OpenFile (filepath_Join (TempDir E) (''test_'' @ suffix @ ''.apk''))]) \<and>
   (Values_Get query ''test_destination'' \<noteq> [] \<and> Values_Get query ''test_schemes'' \<noteq> [] \<and>
    os_Chdir E (TempDir E) w = (None, v1) \<and> RandomAlphaNumericString E 5 = Inr sourceDir \<and>
    os_Mkdir E sourceDir v1 = (None, v2) \<and>
    os_Chdir E (filepath_Join (TempDir E) sourceDir) v2 = (None, v3) \<and>
    os_OpenFile E (filepath_Join (filepath_Join (TempDir E) sourceDir) ''source.tgz'') v3 =
      (None, Some err, v4) \<and>
    \<not> IsExist err \<and> status w = None \<longrightarrow>
      (Body r \<noteq> [] \<longrightarrow>
         panic (runIOSTest E r query w) = panic w \<and>
         status_code (runIOSTest E r query w) = 400 \<and>
         body (runIOSTest E r query w) = body w @ ''invalid argument'' \<and>
         commands (runIOSTest E r query w) = commands w) \<and>
      (Body r = [] \<and> BodyErr r = None \<longrightarrow>
         panic (runIOSTest E r query w) = Some nil_dereference \<and>
         status (runIOSTest E r query w) = None \<and>
         body (runIOSTest E r query w) = body w \<and>
         commands (runIOSTest E r query w) = commands w))"
proof (intro conjI impI; elim conjE)
  assume a: "Values_Get query ''test_package'' \<noteq> []" "RandomAlphaNumericString E 5 = Inr suffix"
    "os_OpenFile E (filepath_Join (TempDir E) (''test_'' @ suffix @ ''.apk'')) w = (None, Some err, w1)"
    "\<not> IsExist err"
  note run = runAndroidTest_open_fails [OF a]
  show "panic (runAndroidTest E r query w) = Some nil_dereference"
    "status (runAndroidTest E r query w) = status w"
    "body (runAndroidTest E r query w) = body w"
    "files (runAndroidTest E r query w) = files w"
    "trace (runAndroidTest E r query w) =
        trace w @ [E_OpenFile (filepath_Join (TempDir E) (''test_'' @ suffix @ ''.apk''))]"
    unfolding run by simp_all
next
  assume a: "Values_Get query ''test_destination'' \<noteq> []" "Values_Get query ''test_schemes'' \<noteq> []"
    "os_Chdir E (TempDir E) w = (None, v1)" "RandomAlphaNumericString E 5 = Inr sourceDir"
    "os_Mkdir E sourceDir v1 = (None, v2)"
    "os_Chdir E (filepath_Join (TempDir E) sourceDir) v2 = (None, v3)"
    "os_OpenFile E (filepath_Join (filepath_Join (TempDir E) sourceDir) ''source.tgz'') v3 =
      (None, Some err, v4)"
    "\<not> IsExist err"
    and s: "status w = None"
  note f = runIOSTest_open_fails(3-6) [OF a]
  {
    assume b: "Body r \<noteq> []"
    note run = runIOSTest_open_fails(1) [OF a b]
    show "panic (runIOSTest E r query w) = panic w"
      "status_code (runIOSTest E r query w) = 400"
      "body (runIOSTest E r query w) = body w @ ''invalid argument''"
      "commands (runIOSTest E r query w) = commands w"
      unfolding run using s by (simp_all add: f status_code_def)
  }
  {
    assume b: "Body r = []" "BodyErr r = None"
    note run = runIOSTest_open_fails(2) [OF a b]
    show "panic (runIOSTest E r query w) = Some nil_dereference"
      "status (runIOSTest E r query w) = None"
      "body (runIOSTest E r query w) = body w"
      "commands (runIOSTest E r query w) = commands w"
      unfolding run using s by (simp_all add: f)
  }
qed

lemma demo_apk_denied:
  "os_OpenFile open_denied_env
     (filepath_Join (TempDir open_denied_env) (''test_'' @ ''abcde'' @ ''.apk'')) (fresh ''/'' []) =
     (None, Some (GoError False ''open /tmp/test_abcde.apk: permission denied''),
      emit (E_OpenFile ''/tmp/test_abcde.apk'') (fresh ''/'' []))"
  by (simp add: os_OpenFile_def resolve_def fresh_def open_denied_env_def demo_server_def
      path_defs)

lemma demo_tgz_denied:
  "os_OpenFile open_denied_env
     (filepath_Join (filepath_Join (TempDir open_denied_env) ''abcde'') ''source.tgz'') in_dir =
     (None, Some (GoError False ''open /tmp/abcde/source.tgz: permission denied''),
      emit (E_OpenFile ''/tmp/abcde/source.tgz'') in_dir)"
  by (simp add: os_OpenFile_def resolve_def in_dir_def open_denied_env_def demo_server_def
      path_defs)

lemma demo_bodies:
  "Body (demo_request raw) \<noteq> []" "Body empty_request = []" "BodyErr empty_request = None"
  by (simp_all add: demo_request_def empty_request_def)

lemma demo_queries_present:
  "Values_Get android_query ''test_package'' \<noteq> []"
  "Values_Get ios_query ''test_destination'' \<noteq> []"
  "Values_Get ios_query ''test_schemes'' \<noteq> []"
  by (simp_all add: android_query_def ios_query_def Values_Get_def)

theorem C10_open_fails_otherwise_witness:
  "panic (runAndroidTest open_denied_env (demo_request []) android_query (fresh ''/'' [])) =
     Some nil_dereference \<and>
   status (runAndroidTest open_denied_env (demo_request []) android_query (fresh ''/'' [])) = None \<and>
   body (runAndroidTest open_denied_env (demo_request []) android_query (fresh ''/'' [])) = [] \<and>
   files (runAndroidTest open_denied_env (demo_request []) android_query (fresh ''/'' [])) = [] \<and>
   trace (runAndroidTest open_denied_env (demo_request []) android_query (fresh ''/'' [])) =
     [E_OpenFile ''/tmp/test_abcde.apk''] \<and>
   panic (runIOSTest open_denied_env (demo_request []) ios_query (fresh ''/'' [])) = None \<and>
   status_code (runIOSTest open_denied_env (demo_request []) ios_query (fresh ''/'' [])) = 400 \<and>
   body (runIOSTest open_denied_env (demo_request []) ios_query (fresh ''/'' [])) =
     ''invalid argument'' \<and>
   commands (runIOSTest open_denied_env (demo_request []) ios_query (fresh ''/'' [])) = [] \<and>
   panic (runIOSTest open_denied_env empty_request ios_query (fresh ''/'' [])) =
     Some nil_dereference \<and>
   status (runIOSTest open_denied_env empty_request ios_query (fresh ''/'' [])) = None \<and>
   body (runIOSTest open_denied_env empty_request ios_query (fresh ''/'' [])) = [] \<and>
   commands (runIOSTest open_denied_env empty_request ios_query (fresh ''/'' [])) = []"
proof -
  note E = open_denied_env_def
  have other: "\<not> IsExist (GoError False ''open /tmp/test_abcde.apk: permission denied'')"
    "\<not> IsExist (GoError False ''open /tmp/abcde/source.tgz: permission denied'')"
    by simp_all
  have start: "panic (fresh ''/'' []) = None" "files (fresh ''/'' []) = []"
    "trace (fresh ''/'' []) = []"
    by (simp_all add: fresh_def)
  have tmp: "filepath_Join (TempDir open_denied_env) ''test_abcde.apk'' = ''/tmp/test_abcde.apk''"
    by (simp add: open_denied_env_def demo_server_def path_defs)
  from C10_open_fails_otherwise [where E = open_denied_env and query = android_query
      and w = "fresh ''/'' []" and r = "demo_request []" and suffix = "''abcde''"
      and err = "GoError False ''open /tmp/test_abcde.apk: permission denied''"
      and ?w1.0 = "emit (E_OpenFile ''/tmp/test_abcde.apk'') (fresh ''/'' [])", THEN conjunct1]
    demo_queries_present(1) demo_ios_staging(2) [OF E] demo_apk_denied other(1)
  have android:
    "panic (runAndroidTest open_denied_env (demo_request []) android_query (fresh ''/'' [])) =
       Some nil_dereference \<and>
     status (runAndroidTest open_denied_env (demo_request []) android_query (fresh ''/'' [])) = None \<and>
     body (runAndroidTest open_denied_env (demo_request []) android_query (fresh ''/'' [])) = [] \<and>
     files (runAndroidTest open_denied_env (demo_request []) android_query (fresh ''/'' [])) = [] \<and>
     trace (runAndroidTest open_denied_env (demo_request []) android_query (fresh ''/'' [])) =
       [E_OpenFile ''/tmp/test_abcde.apk'']"
    by (simp add: demo_start start tmp)
  from C10_open_fails_otherwise [where E = open_denied_env and query = ios_query
      and w = "fresh ''/'' []" and r = "demo_request []" and sourceDir = "''abcde''"
      and err = "GoError False ''open /tmp/abcde/source.tgz: permission denied''"
      and ?v1.0 = in_tmp and ?v2.0 = dir_made and ?v3.0 = in_dir
      and ?v4.0 = "emit (E_OpenFile ''/tmp/abcde/source.tgz'') in_dir", THEN conjunct2]
    demo_queries_present(2,3) demo_ios_staging [OF E] demo_tgz_denied other(2) demo_bodies(1)
  have full:
    "panic (runIOSTest open_denied_env (demo_request []) ios_query (fresh ''/'' [])) = None \<and>
     status_code (runIOSTest open_denied_env (demo_request []) ios_query (fresh ''/'' [])) = 400 \<and>
     body (runIOSTest open_denied_env (demo_request []) ios_query (fresh ''/'' [])) =
       ''invalid argument'' \<and>
     commands (runIOSTest open_denied_env (demo_request []) ios_query (fresh ''/'' [])) = []"
    by (simp add: demo_start start)
  from C10_open_fails_otherwise [where E = open_denied_env and query = ios_query
      and w = "fresh ''/'' []" and r = empty_request and sourceDir = "''abcde''"
      and err = "GoError False ''open /tmp/abcde/source.tgz: permission denied''"
      and ?v1.0 = in_tmp and ?v2.0 = dir_made and ?v3.0 = in_dir
      and ?v4.0 = "emit (E_OpenFile ''/tmp/abcde/source.tgz'') in_dir", THEN conjunct2]
    demo_queries_present(2,3) demo_ios_staging [OF E] demo_tgz_denied other(2) demo_bodies(2,3)
  have empty:
    "panic (runIOSTest open_denied_env empty_request ios_query (fresh ''/'' [])) =
       Some nil_dereference \<and>
     status (runIOSTest open_denied_env empty_request ios_query (fresh ''/'' [])) = None \<and>
     body (runIOSTest open_denied_env empty_request ios_query (fresh ''/'' [])) = [] \<and>
     commands (runIOSTest open_denied_env empty_request ios_query (fresh ''/'' [])) = []"
    by (simp add: demo_start start)
  from android full empty show ?thesis by simp
qed

text \<open>
  The claim as first stated, that no error response is returned and that the write on the
  nil handle makes the branch partial, fails in the iOS runner for an upload that is not
  empty: \<^verbatim>\<open>os.OpenFile\<close> fails with permission denied, and the response is 400 with
  \<open>invalid argument\<close>, with no panic.
\<close>

theorem C10_ios_error_response_counterexample:
  "os_OpenFile open_denied_env
     (filepath_Join (filepath_Join (TempDir open_denied_env) ''abcde'') ''source.tgz'') in_dir =
     (None, Some (GoError False ''open /tmp/abcde/source.tgz: permission denied''),
      emit (E_OpenFile ''/tmp/abcde/source.tgz'') in_dir) \<and>
   \<not> os_IsExist (Some (GoError False ''open /tmp/abcde/source.tgz: permission denied'')) \<and>
   panic (runIOSTest open_denied_env (demo_request []) ios_query (fresh ''/'' [])) = None \<and>
   status_code (runIOSTest open_denied_env (demo_request []) ios_query (fresh ''/'' [])) = 400 \<and>
   body (runIOSTest open_denied_env (demo_request []) ios_query (fresh ''/'' [])) =
     ''invalid argument''"
proof -
  have other: "\<not> IsExist (GoError False ''open /tmp/abcde/source.tgz: permission denied'')"
    by simp
  note run = runIOSTest_open_fails [OF demo_queries_present(2,3)
      demo_ios_staging [OF open_denied_env_def] demo_tgz_denied other]
  have "status (emit (E_OpenFile ''/tmp/abcde/source.tgz'') in_dir) = None"
    "body (emit (E_OpenFile ''/tmp/abcde/source.tgz'') in_dir) = []"
    "panic (emit (E_OpenFile ''/tmp/abcde/source.tgz'') in_dir) = None"
    by (simp_all add: in_dir_def)
  then show ?thesis
    unfolding run(1) [OF demo_bodies(1)]
    by (simp add: demo_tgz_denied os_IsExist_def status_code_def)
qed

section \<open>Cleaned paths\<close>

text \<open>
  A rooted path cleans to the rendering of a stack of plain names; cleaning such a
  rendering changes nothing, and a plain name joined to it is pushed on the stack.
\<close>

lemma strings_Split_append:
  "strings_Split (a @ sep # b) sep = strings_Split a sep @ strings_Split b sep"
  by (induction a) (auto split: list.splits)

lemma strings_Split_plain: "sep \<notin> set c \<Longrightarrow> strings_Split c sep = [c]"
  by (induction c) (auto split: list.splits)

lemma path_elements_append:
  "path_elements (a @ ''/'' @ b) = path_elements a @ path_elements b"
  by (simp add: path_elements_def strings_Split_append)

lemma path_elements_plain: "plain c \<Longrightarrow> path_elements c = [c]"
  by (simp add: path_elements_def plain_def strings_Split_plain)

lemma path_elements_root: "path_elements ''/'' = []"
  by (simp add: path_elements_def)

lemma path_elements_slash: "path_elements (CHR ''/'' # p) = path_elements p"
  by (simp add: path_elements_def)

lemma strings_Join_snoc:
  "xs \<noteq> [] \<Longrightarrow> strings_Join (xs @ [y]) sep = strings_Join xs sep @ sep # y"
  by (induction xs sep rule: strings_Join.induct) simp_all

lemma path_elements_Join:
  "list_all plain xs \<Longrightarrow> path_elements (strings_Join xs (CHR ''/'')) = xs"
proof (induction xs "CHR ''/''" rule: strings_Join.induct)
  case 1
  show ?case by (simp add: path_elements_def)
next
  case (2 x)
  then show ?case by (simp add: path_elements_plain)
next
  case (3 x y ys)
  have "path_elements (x @ ''/'' @ strings_Join (y # ys) (CHR ''/'')) =
      path_elements x @ path_elements (strings_Join (y # ys) (CHR ''/''))"
    by (rule path_elements_append)
  with 3 show ?case by (simp add: path_elements_plain)
qed

lemma path_elements_rendered:
  "list_all plain stack \<Longrightarrow> path_elements (rendered True stack) = rev stack"
  by (simp add: rendered_def path_elements_slash path_elements_Join)

lemma foldl_clean_plain:
  "list_all plain xs \<Longrightarrow> foldl (clean_step r) stack xs = rev xs @ stack"
  by (induction xs arbitrary: stack) (simp_all add: clean_step_def plain_def)

lemma clean_step_plain:
  assumes "list_all plain stack" and "c \<noteq> []" "c \<noteq> ''.''" "CHR ''/'' \<notin> set c"
  shows "list_all plain (clean_step True stack c)"
  using assms by (cases stack) (auto simp: clean_step_def plain_def)

lemma foldl_clean_keeps_plain:
  assumes "list_all plain stack"
    and "\<forall>c\<in>set xs. c \<noteq> [] \<and> c \<noteq> ''.'' \<and> CHR ''/'' \<notin> set c"
  shows "list_all plain (foldl (clean_step True) stack xs)"
  using assms by (induction xs arbitrary: stack) (simp_all add: clean_step_plain)

lemma path_elements_ok:
  "\<forall>c\<in>set (path_elements p). c \<noteq> [] \<and> c \<noteq> ''.'' \<and> CHR ''/'' \<notin> set c"
  by (auto simp: path_elements_def dest: strings_Split_pieces)

lemma rendered_rooted [simp]: "take 1 (rendered True stack) = ''/''" "rendered True stack \<noteq> []"
  by (simp_all add: rendered_def)

lemma Clean_rooted:
  assumes "take 1 p = ''/''"
  shows "filepath_Clean p = rendered True (stack_of p)" "list_all plain (stack_of p)"
  using assms foldl_clean_keeps_plain [OF _ path_elements_ok, of "[]" p]
  by (simp_all add: filepath_Clean_def stack_of_def)

lemma stack_of_rendered:
  assumes "list_all plain stack"
  shows "stack_of (rendered True stack) = stack"
  using assms by (simp add: stack_of_def path_elements_rendered foldl_clean_plain)

lemma stack_of_rendered_append:
  assumes "list_all plain stack"
  shows "stack_of (rendered True stack @ ''/'' @ b) = foldl (clean_step True) stack (path_elements b)"
  using assms
  by (simp add: stack_of_def path_elements_append path_elements_rendered foldl_clean_plain
      del: append.simps)

lemma Clean_rendered:
  assumes "list_all plain stack"
  shows "filepath_Clean (rendered True stack) = rendered True stack"
  using Clean_rooted(1) [OF rendered_rooted(1), of stack] stack_of_rendered [OF assms] by simp

lemma Clean_rendered_name:
  assumes "list_all plain stack" and "plain c"
  shows "filepath_Clean (rendered True stack @ ''/'' @ c) = rendered True (c # stack)"
proof -
  have "take 1 (rendered True stack @ ''/'' @ c) = ''/''"
    by (simp add: rendered_def)
  then have "filepath_Clean (rendered True stack @ ''/'' @ c) =
      rendered True (stack_of (rendered True stack @ ''/'' @ c))"
    by (rule Clean_rooted)
  also have "stack_of (rendered True stack @ ''/'' @ c) = c # stack"
    using assms by (simp add: stack_of_rendered_append path_elements_plain clean_step_def plain_def
        del: append.simps)
  finally show ?thesis .
qed

lemma Clean_rooted_name:
  assumes "take 1 p = ''/''" and "plain c"
  shows "filepath_Clean (p @ ''/'' @ c) = rendered True (c # stack_of p)"
proof -
  have "take 1 (p @ ''/'' @ c) = ''/''"
    using assms(1) by (cases p) simp_all
  then have "filepath_Clean (p @ ''/'' @ c) = rendered True (stack_of (p @ ''/'' @ c))"
    by (rule Clean_rooted)
  also have "stack_of (p @ ''/'' @ c) = c # stack_of p"
    using assms(2)
    by (simp add: stack_of_def path_elements_append path_elements_plain clean_step_def plain_def
        del: append.simps)
  finally show ?thesis .
qed

lemma rendered_Cons:
  "rendered True (c # d # stack) = rendered True (d # stack) @ ''/'' @ c"
  using strings_Join_snoc [of "rev stack @ [d]" c "CHR ''/''"] by (simp add: rendered_def)

section \<open>What a request leaves on disk\<close>

lemma android_locked_frame:
  "files (android_locked E pkg name w) = files w" "cwd (android_locked E pkg name w) = cwd w"
  by (simp_all add: android_locked_def CombinedOutput_eq split: prod.splits option.splits)

lemma android_staged_frame:
  "files (android_staged E r pkg name w) = files w" "cwd (android_staged E r pkg name w) = cwd w"
  by (auto simp: android_staged_def android_locked_frame ReadAll_TeeReader_def
      split: prod.splits option.splits if_splits)

lemma resolve_cwd: "cwd w' = cwd w \<Longrightarrow> resolve w' p = resolve w p"
  by (simp add: resolve_def)

text \<open>
  The Android runner leaves the file system as it found it, on every path: the staging
  file is created under an absolute name and removed under the same name when the runner
  returns.
\<close>

lemma runAndroidTest_files: "files (runAndroidTest E r query w) = files w"
proof (cases "Values_Get query ''test_package'' = []")
  case True
  then show ?thesis by (simp add: runAndroidTest_def)
next
  case False
  show ?thesis
  proof (cases "RandomAlphaNumericString E 5")
    case (Inl p)
    with False show ?thesis by (simp add: runAndroidTest_def)
  next
    case (Inr suffix)
    let ?path = "filepath_Join (TempDir E) (''test_'' @ suffix @ ''.apk'')"
    obtain apkFile err w1 where "open": "os_OpenFile E ?path w = (apkFile, err, w1)"
      by (cases "os_OpenFile E ?path w") auto
    show ?thesis
    proof (cases apkFile)
      case None
      have run: "runAndroidTest E r query w =
          (if os_IsExist err
           then (case err of Some e \<Rightarrow> Write (Error e) (WriteHeader 400 w1)
                 | None \<Rightarrow> go_panic nil_dereference w1)
           else go_panic nil_dereference w1)"
        using False Inr "open" None by (simp add: runAndroidTest_def)
      have "files w1 = files w"
        using os_OpenFile_failed(1) [OF "open" [unfolded None]] by simp
      then show ?thesis
        unfolding run by (simp split: option.splits)
    next
      case (Some name)
      note created = os_OpenFile_created [OF "open" [unfolded Some]]
      note frame = os_OpenFile_frame [OF "open"]
      have run: "runAndroidTest E r query w =
          os_Remove name (android_staged E r (Values_Get query ''test_package'') name w1)"
        using False Inr "open" Some created(2) by (simp add: runAndroidTest_def os_IsExist_def)
      have "resolve (android_staged E r (Values_Get query ''test_package'') name w1) name =
          resolve w ?path"
        unfolding created(1) by (rule resolve_cwd) (simp add: android_staged_frame frame(2))
      then have "files (runAndroidTest E r query w) =
          removeAll (resolve w ?path) (resolve w ?path # files w)"
        unfolding run by (simp add: android_staged_frame created(4))
      also have "\<dots> = files w"
        using created(3) by simp
      finally show ?thesis .
    qed
  qed
qed

lemma randomLoop_chars: "randomLoop E alpha i n = Inr s \<Longrightarrow> set s \<subseteq> set alpha"
proof (induction n arbitrary: i s)
  case 0
  then show ?case by simp
next
  case (Suc n)
  from Suc.prems obtain v buf where "v < length alpha" "randomLoop E alpha (Suc i) n = Inr buf"
    "s = alpha ! v # buf"
    by (auto split: sum.splits if_splits)
  with Suc.IH [of "Suc i" buf] show ?case by simp
qed

lemma token_relative:
  assumes "RandomAlphaNumericString E n = Inr s"
  shows "CHR ''/'' \<notin> set s" and "CHR ''.'' \<notin> set s"
proof -
  have "set s \<subseteq> set stringAlphaNumeric"
    using assms by (simp add: RandomAlphaNumericString_def randomStringFromAlphabet_def randomLoop_chars)
  moreover have "CHR ''/'' \<notin> set stringAlphaNumeric" "CHR ''.'' \<notin> set stringAlphaNumeric"
    by (simp_all add: stringAlphaNumeric_def stringAlpha_def stringAlphaUpper_def stringNumeric_def)
  ultimately show "CHR ''/'' \<notin> set s" and "CHR ''.'' \<notin> set s" by auto
qed

lemma ios_staged_frame:
  assumes "os_Chdir E (filepath_Join (TempDir E) sourceDir) w2 = (None, w3)"
    and "os_OpenFile E (filepath_Join (filepath_Join (TempDir E) sourceDir) ''source.tgz'') w3 =
           (f, err, w4)"
  shows "cwd (ios_staged E r dest ss sourceDir w2) = cwd w3"
    and "set (files w4) \<subseteq> set (files (ios_staged E r dest ss sourceDir w2))"
    and "set (files w2) \<subseteq> set (files w4)"
proof -
  have w3: "w3 = (emit (E_Chdir (filepath_Join (TempDir E) sourceDir)) w2)
      \<lparr>cwd := resolve w2 (filepath_Join (TempDir E) sourceDir)\<rparr>"
    using assms(1) by (rule os_Chdir_ok)
  have w4: "cwd w4 = cwd w3" "set (files w3) \<subseteq> set (files w4)"
    using assms(2) by (auto simp: os_OpenFile_def split: if_splits option.splits)
  have files3: "files w3 = files w2" by (simp add: w3)
  then show "set (files w2) \<subseteq> set (files w4)" using w4(2) by simp
  show "cwd (ios_staged E r dest ss sourceDir w2) = cwd w3"
    using assms w4(1)
    by (auto simp: ios_staged_def ios_locked_frame ReadAll_TeeReader_def CombinedOutput_eq
        split: prod.splits option.splits if_splits)
  show "set (files w4) \<subseteq> set (files (ios_staged E r dest ss sourceDir w2))"
    using assms
    by (auto simp: ios_staged_def ios_locked_frame ReadAll_TeeReader_def CombinedOutput_eq
        split: prod.splits option.splits if_splits)
qed

lemma randomLoop_length: "randomLoop E alpha i n = Inr s \<Longrightarrow> length s = n"
proof (induction n arbitrary: i s)
  case 0
  then show ?case by simp
next
  case (Suc n)
  from Suc.prems obtain v buf where "randomLoop E alpha (Suc i) n = Inr buf" "s = alpha ! v # buf"
    by (auto split: sum.splits if_splits)
  with Suc.IH [of "Suc i" buf] show ?case by simp
qed

lemma token_plain:
  assumes "RandomAlphaNumericString E 5 = Inr s"
  shows "plain s"
proof -
  have "length s = 5"
    using assms by (simp add: RandomAlphaNumericString_def randomStringFromAlphabet_def randomLoop_length)
  then have "s \<noteq> []" by auto
  moreover have "s \<noteq> ''.''" "s \<noteq> ''..''"
    using token_relative(2) [OF assms] by auto
  ultimately show ?thesis
    using token_relative(1) [OF assms] by (simp add: plain_def)
qed

lemma resolve_rooted:
  "take 1 p = ''/'' \<Longrightarrow> resolve w p = rendered True (stack_of p)"
  by (simp add: resolve_def Clean_rooted)

lemma resolve_rendered:
  "list_all plain stack \<Longrightarrow> resolve w (rendered True stack) = rendered True stack"
  using resolve_rooted [OF rendered_rooted(1), of w stack] by (simp add: stack_of_rendered)

lemma resolve_name:
  assumes "cwd w = rendered True stack" and "list_all plain stack" and "plain c"
  shows "resolve w c = rendered True (c # stack)"
proof -
  have "take 1 c \<noteq> ''/''"
    using assms(3) by (cases c) (auto simp: plain_def)
  then show ?thesis
    using Clean_rendered_name [OF assms(2,3)] by (simp add: resolve_def assms(1))
qed

lemma not_beneath_shorter: "length q \<le> length a \<Longrightarrow> \<not> beneath a q"
proof
  assume "length q \<le> length a" and "beneath a q"
  then have "length (take (Suc (length a)) q) = length (a @ ''/'')"
    by (simp add: beneath_def)
  with \<open>length q \<le> length a\<close> show False by simp
qed

lemma beneath_prefix: "beneath a q \<Longrightarrow> \<exists>rest. q = a @ ''/'' @ rest"
proof -
  assume "beneath a q"
  then have "q = (a @ ''/'') @ drop (Suc (length a)) q"
    unfolding beneath_def by (metis append_take_drop_id)
  then show ?thesis by auto
qed

text \<open>
  C1. The claim is that nothing a request stages is left on disk once it is handled. The
  Android runner leaves nothing (\<open>runAndroidTest_files\<close>). The iOS runner does not: it creates
  the staging directory under a relative name, defers \<^verbatim>\<open>os.RemoveAll\<close> of that relative
  name, and then changes the working directory into the directory itself. When the runner
  returns, the name is resolved there, so the removal is aimed at a path inside the
  staging directory. Whenever both directory changes and the \<^verbatim>\<open>Mkdir\<close> succeed (the
  temporary directory being absolute), the staging directory, which did not exist
  before, still exists after the request, and so does \<open>source.tgz\<close> if it was
  created, whatever happens in between.
\<close>

theorem C1_ios_staging_dir_remains:
  assumes "take 1 (TempDir E) = ''/''"
    and "Values_Get query ''test_destination'' \<noteq> []"
    and "Values_Get query ''test_schemes'' \<noteq> []"
    and "os_Chdir E (TempDir E) w = (None, w1)"
    and "RandomAlphaNumericString E 5 = Inr sourceDir"
    and "os_Mkdir E sourceDir w1 = (None, w2)"
    and "os_Chdir E (filepath_Join (TempDir E) sourceDir) w2 = (None, w3)"
    and "os_OpenFile E (filepath_Join (filepath_Join (TempDir E) sourceDir) ''source.tgz'') w3 =
           (sourceFile, err, w4)"
  shows "filepath_Join (TempDir E) sourceDir \<notin> set (files w) \<and>
         filepath_Join (TempDir E) sourceDir \<in> set (files (runIOSTest E r query w)) \<and>
         (sourceFile \<noteq> None \<longrightarrow>
            filepath_Join (filepath_Join (TempDir E) sourceDir) ''source.tgz'' \<notin> set (files w) \<and>
            filepath_Join (filepath_Join (TempDir E) sourceDir) ''source.tgz''
              \<in> set (files (runIOSTest E r query w)))"
proof -
  define root where "root = stack_of (TempDir E)"
  define D where "D = filepath_Join (TempDir E) sourceDir"
  define S where "S = filepath_Join D ''source.tgz''"
  define T where "T = D @ ''/'' @ sourceDir"
  let ?staged = "ios_staged E r (Values_Get query ''test_destination'')
      (strings_Split (Values_Get query ''test_schemes'') (CHR '','')) sourceDir w2"
  note token = token_plain [OF assms(5)]
  have tgz: "plain ''source.tgz''"
    by (simp add: plain_def)
  have root: "list_all plain root"
    unfolding root_def using assms(1) by (rule Clean_rooted)
  then have stacks: "list_all plain (sourceDir # root)"
    "list_all plain (sourceDir # sourceDir # root)"
    "list_all plain (''source.tgz'' # sourceDir # root)"
    using token tgz by simp_all
  have "TempDir E \<noteq> []" "sourceDir \<noteq> []"
    using assms(1) token by (auto simp: plain_def)
  then have D: "D = rendered True (sourceDir # root)"
    unfolding D_def root_def
    by (simp add: filepath_Join_def Clean_rooted_name [OF assms(1) token] del: append.simps)
  then have "D \<noteq> []" by simp
  then have S: "S = rendered True (''source.tgz'' # sourceDir # root)"
    unfolding S_def
    by (simp add: filepath_Join_def D Clean_rendered_name [OF stacks(1) tgz] del: append.simps)
  have S_D: "S = D @ ''/'' @ ''source.tgz''"
    unfolding S D by (rule rendered_Cons)
  have T: "T = rendered True (sourceDir # sourceDir # root)"
    unfolding T_def D by (rule rendered_Cons [symmetric])
  have w1: "w1 = (emit (E_Chdir (TempDir E)) w)\<lparr>cwd := resolve w (TempDir E)\<rparr>"
    using assms(4) by (rule os_Chdir_ok)
  then have cwd1: "cwd w1 = rendered True root" and files1: "files w1 = files w"
    by (simp_all add: resolve_rooted [OF assms(1)] root_def)
  have made: "resolve w1 sourceDir = D"
    unfolding D by (rule resolve_name [OF cwd1 root token])
  have w2: "w2 = (emit (E_Mkdir sourceDir) w1)\<lparr>files := D # files w1\<rparr>"
    using os_Mkdir_ok [OF assms(6)] by (simp add: made)
  have new: "D \<notin> set (files w)"
    using assms(6) made files1 by (auto simp: os_Mkdir_def split: if_splits)
  have rD: "resolve v D = D" for v
    unfolding D by (rule resolve_rendered [OF stacks(1)])
  have rS: "resolve v S = S" for v
    unfolding S by (rule resolve_rendered [OF stacks(3)])
  have w3: "cwd w3 = D"
    using os_Chdir_ok [OF assms(7)] by (simp add: D_def [symmetric] rD)
  note frame = ios_staged_frame [OF assms(7,8)]
  have cwd_end: "cwd ?staged = rendered True (sourceDir # root)"
    using frame(1) w3 D by simp
  have target: "resolve ?staged sourceDir = T"
    unfolding T by (rule resolve_name [OF cwd_end stacks(1) token])
  have run: "runIOSTest E r query w = os_RemoveAll sourceDir ?staged"
    using assms(2-6) by (rule runIOSTest_staging)
  have kept: "q \<in> set (files (runIOSTest E r query w))"
    if "q \<in> set (files w4)" "q \<noteq> T" "\<not> beneath T q" for q
    using that frame(2) unfolding run by (auto simp: target)
  have "D \<in> set (files w4)"
    using frame(3) by (auto simp: w2)
  moreover have "D \<noteq> T" by (simp add: T_def)
  moreover have "\<not> beneath T D" by (rule not_beneath_shorter) (simp add: T_def)
  ultimately have dir: "D \<in> set (files (runIOSTest E r query w))"
    by (rule kept)
  have staged: "S \<notin> set (files w) \<and> S \<in> set (files (runIOSTest E r query w))"
    if "sourceFile \<noteq> None"
  proof -
    from that obtain name where name: "sourceFile = Some name" by auto
    note created = os_OpenFile_created [OF assms(8) [unfolded name D_def [symmetric] S_def [symmetric]]]
    have "files w3 = D # files w"
      using os_Chdir_ok [OF assms(7)] by (simp add: w2 files1)
    with created(3) rS have fresh: "S \<notin> set (files w)" by simp
    have "S \<in> set (files w4)" using created(4) rS by simp
    moreover have "S \<noteq> T"
    proof
      assume "S = T"
      then have "''source.tgz'' = sourceDir" by (simp add: S_D T_def)
      with token_relative(2) [OF assms(5)] show False by auto
    qed
    moreover have "\<not> beneath T S"
    proof
      assume "beneath T S"
      then obtain rest where "S = T @ ''/'' @ rest" by (auto dest: beneath_prefix)
      then have "''source.tgz'' = sourceDir @ ''/'' @ rest" by (simp add: S_D T_def)
      then have "CHR ''/'' \<in> set ''source.tgz''" by (metis in_set_conv_decomp append_Cons append_Nil)
      then show False by simp
    qed
    ultimately have "S \<in> set (files (runIOSTest E r query w))" by (rule kept)
    with fresh show ?thesis by simp
  qed
  from new dir staged show ?thesis
    unfolding S_def D_def by blast
qed

theorem C1_ios_staging_dir_remains_witness:
  "take 1 (TempDir demo_env) = ''/'' \<and>
   ''/tmp/abcde'' \<notin> set (files (fresh ''/'' [])) \<and>
   ''/tmp/abcde'' \<in> set (files (runIOSTest demo_env (demo_request []) ios_query (fresh ''/'' []))) \<and>
   ''/tmp/abcde/source.tgz'' \<notin> set (files (fresh ''/'' [])) \<and>
   ''/tmp/abcde/source.tgz''
     \<in> set (files (runIOSTest demo_env (demo_request []) ios_query (fresh ''/'' [])))"
proof -
  have tmp: "take 1 (TempDir demo_env) = ''/''"
    by (simp add: demo_env_def demo_server_def)
  have paths: "filepath_Join (TempDir demo_env) ''abcde'' = ''/tmp/abcde''"
    "filepath_Join ''/tmp/abcde'' ''source.tgz'' = ''/tmp/abcde/source.tgz''"
    by (simp_all add: demo_env_def demo_server_def path_defs)
  from C1_ios_staging_dir_remains [OF tmp demo_queries_present(2,3)
      demo_ios_staging [OF demo_env_def] demo_tgz_created [OF demo_env_def]]
    tmp
  show ?thesis
    by (simp add: paths)
qed

section \<open>The lock: within one request and between requests\<close>

lemma held_after_append:
  "held_after h (xs @ ys) = (case held_after h xs of None \<Rightarrow> None | Some h' \<Rightarrow> held_after h' ys)"
  by (induction h xs rule: held_after.induct) simp_all

lemma held_after_emit:
  "held_after h (trace w) = Some h' \<Longrightarrow>
     held_after h (trace (emit e w)) = held_after h' [e]"
  by (simp add: held_after_append)

lemma device_commands [simp]:
  "device_command (adb_install name)" "device_command (adb_instrument pkg)"
  "device_command (xcodebuild d s)" "\<not> device_command (tar_xf name)"
  by (simp_all add: device_command_def adb_install_def adb_instrument_def xcodebuild_def tar_xf_def)







lemma removals_held [simp]:
  "held_after h (trace (os_Remove p w)) = held_after h (trace w)"
  "held_after h (trace (os_RemoveAll p w)) = held_after h (trace w)"
  by (simp_all add: held_after_append split: option.splits)















lemma project_Nil [simp]: "project i [] = []"
  by (simp add: project_def)








end
